theory Spec2Isabelle
  imports Complex_Main "HOL-Library.Word"
begin

section \<open>Package ppsutil (src/server/pkg/ppsutil/util.go)\<close>

text \<open>
  A shallow embedding of the job and pipeline state utilities of package \<open>ppsutil\<close>.
  Go pointers to records that the code dereferences without a nil check
  (\<open>jobPtr.Job\<close>, \<open>jobPtr.Pipeline\<close>, \<open>prov.Commit.Repo\<close>, ...) are modelled by
  the record they point to; a pointer, map or slice that the code compares with \<open>nil\<close>
  is an \<open>option\<close>. Integers have their Go width where the sources give their type.
\<close>

subsection \<open>Errors and panics\<close>

type_synonym int32 = "32 word"
type_synonym int64 = "64 word"

text \<open>
  \<open>pps.JobState\<close> is a Go enumeration, that is an \<open>int32\<close> with named constants;
  values outside the named ones are values of the type as well.
\<close>

type_synonym JobState = int32

text \<open>
  The errors the functions return. \<open>IllegalTransition id state\<close> is the
  \<open>fmt.Errorf("cannot put %q in state %s as it's already in state JOB_FAILURE", ...)\<close>
  of \<open>UpdateJobState\<close>; \<open>ErrNotFound key\<close> is the miss of a collection's \<open>Get\<close>
  (the spec's \<open>PipelineNotFound\<close>); \<open>TimestampError\<close> is the error of
  \<open>types.TimestampProto\<close>; \<open>ErrFormatWrong\<close> is an error of a quantity parser;
  \<open>NodeListError\<close> and \<open>NoNodesFound\<close> are the two errors of \<open>getNumNodes\<close>
  ("unable to retrieve node list from k8s ..." and "no k8s nodes found");
  \<open>InvalidParallelismSpec\<close> is the "unable to interpret ParallelismSpec" of
  \<open>GetExpectedNumWorkers\<close>.
\<close>

datatype error =
    IllegalTransition string JobState
  | ErrNotFound string
  | TimestampError
  | ErrFormatWrong
  | NodeListError
  | NoNodesFound
  | InvalidParallelismSpec

text \<open>
  Go panics: the \<open>panic(...)\<close> of \<open>IsTerminal\<close> and the runtime panic of an
  assignment to an entry of a nil map.
\<close>

datatype panic =
    UnrecognizedJobState JobState
  | NilMapAssignment

text \<open>What a call does: it returns (an error or nil), or it panics.\<close>

datatype outcome =
    Returned "error option"
  | Panicked panic

text \<open>Whether an outcome is the return of an \<open>IllegalTransition\<close> error.\<close>

fun isIllegalTransition :: "outcome \<Rightarrow> bool" where
  "isIllegalTransition (Returned (Some (IllegalTransition jobID state))) = True"
| "isIllegalTransition other = False"

subsection \<open>Job states\<close>

text \<open>
  Modelled from the spec: the declaration of the enumeration \<open>pps.JobState\<close>
  (generated from pps.proto) is not among the sources; the spec lists the six states
  \<open>{STARTING, RUNNING, MERGING, SUCCESS, FAILURE, KILLED}\<close>. They are six distinct
  \<open>int32\<close> constants, numbered here in the order of the proto declaration; the
  theorems below use only that they are distinct.
\<close>

definition JOB_STARTING :: JobState where "JOB_STARTING = 0"
definition JOB_RUNNING :: JobState where "JOB_RUNNING = 1"
definition JOB_FAILURE :: JobState where "JOB_FAILURE = 2"
definition JOB_SUCCESS :: JobState where "JOB_SUCCESS = 3"
definition JOB_KILLED :: JobState where "JOB_KILLED = 4"
definition JOB_MERGING :: JobState where "JOB_MERGING = 5"

text \<open>
  \<open>IsTerminal\<close>: a switch with two cases and a default that panics.
\<close>

definition IsTerminal :: "JobState \<Rightarrow> panic + bool" where
  "IsTerminal state =
     (if state = JOB_SUCCESS \<or> state = JOB_FAILURE \<or> state = JOB_KILLED then Inr True
      else if state = JOB_STARTING \<or> state = JOB_RUNNING \<or> state = JOB_MERGING
        then Inr False
      else Inl (UnrecognizedJobState state))"

subsection \<open>Records of the store\<close>

text \<open>
  Modelled from the spec: the declaration of \<open>pps.PipelineState\<close> is not among the
  sources; the spec lists \<open>{STARTING, RUNNING, RESTARTING, FAILURE, PAUSED, STANDBY}\<close>.
\<close>

datatype PipelineState =
    PIPELINE_STARTING
  | PIPELINE_RUNNING
  | PIPELINE_RESTARTING
  | PIPELINE_FAILURE
  | PIPELINE_PAUSED
  | PIPELINE_STANDBY

text \<open>A protobuf timestamp (\<open>types.Timestamp\<close>).\<close>

record Timestamp =
  Seconds :: int64
  Nanos :: int32

text \<open>
  \<open>pps.EtcdPipelineInfo\<close>, with the fields the code reads or writes. \<open>JobCounts\<close> is
  a Go \<open>map[int32]int32\<close>, which may be nil (\<open>None\<close>). The fields \<open>State\<close> and
  \<open>Reason\<close> carry the suffix \<open>_p\<close>, since the job record has fields of the same
  names.
\<close>

record EtcdPipelineInfo =
  State_p :: PipelineState
  Reason_p :: string
  JobCounts :: "(int32 \<rightharpoonup> int32) option"
  LastJobState :: JobState
  SpecCommit :: string

text \<open>
  \<open>pps.EtcdJobInfo\<close>: \<open>Job_ID\<close> is \<open>jobPtr.Job.ID\<close>, \<open>Pipeline_Name\<close> is
  \<open>jobPtr.Pipeline.Name\<close>; \<open>Started\<close> and \<open>Finished\<close> are pointers to
  timestamps, nil when unset.
\<close>

record EtcdJobInfo =
  Job_ID :: string
  Pipeline_Name :: string
  State :: JobState
  Reason :: string
  Started :: "Timestamp option"
  Finished :: "Timestamp option"

subsection \<open>Collections\<close>

text \<open>
  A \<open>col.ReadWriteCollection\<close> inside one transaction attempt: the records by key.
\<close>

type_synonym 'v Collection = "string \<rightharpoonup> 'v"

text \<open>
  Modelled from the spec: package \<open>collection\<close> is not among the sources. The spec
  gives \<open>get(collection, key) -> record | NotFound\<close> and
  \<open>put(collection, key, record)\<close>. \<open>Put\<close> has the error result of the Go signature,
  which \<open>UpdateJobState\<close> tests, and never uses it.
\<close>

definition Get :: "'v Collection \<Rightarrow> string \<Rightarrow> error + 'v" where
  "Get c key = (case c key of None \<Rightarrow> Inl (ErrNotFound key) | Some v \<Rightarrow> Inr v)"

definition Put :: "'v Collection \<Rightarrow> string \<Rightarrow> 'v \<Rightarrow> error + 'v Collection" where
  "Put c key v = Inr (c(key \<mapsto> v))"

subsection \<open>Go maps\<close>

text \<open>
  Reading \<open>m[k]\<close> gives the zero value when the map is nil or has no entry for \<open>k\<close>;
  assigning \<open>m[k] = v\<close> panics when the map is nil.
\<close>

definition mapIndex :: "(int32 \<rightharpoonup> int32) option \<Rightarrow> int32 \<Rightarrow> int32" where
  "mapIndex m k =
     (case m of None \<Rightarrow> 0 | Some f \<Rightarrow> (case f k of None \<Rightarrow> 0 | Some v \<Rightarrow> v))"

definition mapAssign ::
  "(int32 \<rightharpoonup> int32) option \<Rightarrow> int32 \<Rightarrow> int32 \<Rightarrow> panic + (int32 \<rightharpoonup> int32) option" where
  "mapAssign m k v =
     (case m of None \<Rightarrow> Inl NilMapAssignment | Some f \<Rightarrow> Inr (Some (f(k \<mapsto> v))))"

subsection \<open>UpdateJobState\<close>

text \<open>
  Lines 282 to 289 of \<open>UpdateJobState\<close>, on the pipeline record read from the store:
  install an empty map when \<open>JobCounts\<close> is nil, decrement the count of the job's
  current state unless it is 0, increment the count of the new state, and set
  \<open>LastJobState\<close>. \<open>--\<close> and \<open>++\<close> are \<open>int32\<close> operations and wrap around.
\<close>

definition updateJobCounts ::
  "EtcdPipelineInfo \<Rightarrow> JobState \<Rightarrow> JobState \<Rightarrow> panic + EtcdPipelineInfo" where
  "updateJobCounts pipelinePtr old state =
     (let p1 = (if JobCounts pipelinePtr = None
                then pipelinePtr\<lparr>JobCounts := Some Map.empty\<rparr> else pipelinePtr)
      in case (if mapIndex (JobCounts p1) old \<noteq> 0
               then mapAssign (JobCounts p1) old (mapIndex (JobCounts p1) old - 1)
               else Inr (JobCounts p1)) of
           Inl pn \<Rightarrow> Inl pn
         | Inr m1 \<Rightarrow>
             (case mapAssign m1 state (mapIndex m1 state + 1) of
                Inl pn \<Rightarrow> Inl pn
              | Inr m2 \<Rightarrow> Inr (p1\<lparr>JobCounts := m2, LastJobState := state\<rparr>)))"

text \<open>
  Lines 295 to 300: the timestamps. \<open>now\<close> is the result of
  \<open>types.TimestampProto(time.Now())\<close>: \<open>None\<close> when the conversion fails, in which
  case the Go assignment stores the nil pointer it returns. The result is the job
  record and \<open>err\<close>.
\<close>

definition updateTimestamps ::
  "EtcdJobInfo \<Rightarrow> JobState \<Rightarrow> Timestamp option \<Rightarrow> panic + (EtcdJobInfo \<times> error option)" where
  "updateTimestamps jobPtr state now =
     (if state = JOB_STARTING
      then Inr (jobPtr\<lparr>Started := now\<rparr>,
                (case now of None \<Rightarrow> Some TimestampError | Some t \<Rightarrow> None))
      else case IsTerminal state of
             Inl pn \<Rightarrow> Inl pn
           | Inr True \<Rightarrow> Inr (jobPtr\<lparr>Finished := now\<rparr>,
                (case now of None \<Rightarrow> Some TimestampError | Some t \<Rightarrow> None))
           | Inr False \<Rightarrow> Inr (jobPtr, None))"

text \<open>
  \<open>UpdateJobState pipelines jobs jobPtr state reason\<close>, with the clock reading
  \<open>now\<close> as a further argument. The result is the outcome together with the two
  collections and the job record \<open>jobPtr\<close> points to, as the call leaves them.
\<close>

definition UpdateJobState ::
  "EtcdPipelineInfo Collection \<Rightarrow> EtcdJobInfo Collection \<Rightarrow> EtcdJobInfo \<Rightarrow> JobState \<Rightarrow>
   string \<Rightarrow> Timestamp option \<Rightarrow>
   outcome \<times> EtcdPipelineInfo Collection \<times> EtcdJobInfo Collection \<times> EtcdJobInfo" where
  "UpdateJobState pipelines jobs jobPtr state reason now =
     (if State jobPtr = JOB_FAILURE
      then (Returned (Some (IllegalTransition (Job_ID jobPtr) state)), pipelines, jobs, jobPtr)
      else case Get pipelines (Pipeline_Name jobPtr) of
        Inl err \<Rightarrow> (Returned (Some err), pipelines, jobs, jobPtr)
      | Inr pipelinePtr \<Rightarrow>
          (case updateJobCounts pipelinePtr (State jobPtr) state of
             Inl pn \<Rightarrow> (Panicked pn, pipelines, jobs, jobPtr)
           | Inr pipelinePtr' \<Rightarrow>
               (case Put pipelines (Pipeline_Name jobPtr) pipelinePtr' of
                  Inl err \<Rightarrow> (Returned (Some err), pipelines, jobs, jobPtr)
                | Inr pipelines' \<Rightarrow>
                    (case updateTimestamps jobPtr state now of
                       Inl pn \<Rightarrow> (Panicked pn, pipelines', jobs, jobPtr)
                     | Inr (jobPtr1, Some err) \<Rightarrow>
                         (Returned (Some err), pipelines', jobs, jobPtr1)
                     | Inr (jobPtr1, None) \<Rightarrow>
                         (let jobPtr2 = jobPtr1\<lparr>State := state, Reason := reason\<rparr>
                          in case Put jobs (Job_ID jobPtr2) jobPtr2 of
                               Inl err \<Rightarrow> (Returned (Some err), pipelines', jobs, jobPtr2)
                             | Inr jobs' \<Rightarrow> (Returned None, pipelines', jobs', jobPtr2))))))"

text \<open>
  The sum of the counts of a \<open>JobCounts\<close> map, each count read as the signed
  integer it is. A nil map has no entries.
\<close>

definition sumCounts :: "(int32 \<rightharpoonup> int32) option \<Rightarrow> int" where
  "sumCounts m =
     (case m of None \<Rightarrow> 0 | Some f \<Rightarrow> (\<Sum>k \<in> dom f. sint (mapIndex (Some f) k)))"

subsection \<open>FailPipeline\<close>

text \<open>The store: the two collections the package works on.\<close>

record EtcdStore =
  pipelinesC :: "EtcdPipelineInfo Collection"
  jobsC :: "EtcdJobInfo Collection"

text \<open>
  Modelled from the spec: \<open>col.NewSTM\<close> is not among the sources. The spec gives
  \<open>runTransaction(fn)\<close>, which executes \<open>fn\<close> with read/write handles and commits
  atomically on success. This is one attempt without a concurrent writer: the writes
  of \<open>fn\<close> are kept when it returns nil and dropped when it returns an error.
\<close>

definition NewSTM ::
  "EtcdStore \<Rightarrow> (EtcdStore \<Rightarrow> error option \<times> EtcdStore) \<Rightarrow> error option \<times> EtcdStore" where
  "NewSTM store f =
     (case f store of
        (None, store') \<Rightarrow> (None, store')
      | (Some err, store') \<Rightarrow> (Some err, store))"

text \<open>
  \<open>FailPipeline\<close>: the closure reads the pipeline record, sets its state and reason
  and writes it back; the result of that \<open>Put\<close> is not looked at.
\<close>

definition FailPipeline :: "EtcdStore \<Rightarrow> string \<Rightarrow> string \<Rightarrow> error option \<times> EtcdStore" where
  "FailPipeline etcdClient pipelineName reason =
     NewSTM etcdClient (\<lambda>stm.
       case Get (pipelinesC stm) pipelineName of
         Inl err \<Rightarrow> (Some err, stm)
       | Inr pipelinePtr \<Rightarrow>
           (let pipelinePtr' = pipelinePtr\<lparr>State_p := PIPELINE_FAILURE, Reason_p := reason\<rparr>
            in case Put (pipelinesC stm) pipelineName pipelinePtr' of
                 Inl err \<Rightarrow> (None, stm)
               | Inr pipelines' \<Rightarrow> (None, stm\<lparr>pipelinesC := pipelines'\<rparr>)))"

subsection \<open>getResourceListFromSpec\<close>

text \<open>
  \<open>pps.GPUSpec\<close> and \<open>pps.ResourceSpec\<close>. \<open>Cpu\<close> is a Go \<open>float32\<close> that the
  code only formats; its type is the parameter \<open>'f\<close>. \<open>Gpu\<close> is a pointer the
  code compares with nil.
\<close>

record GPUSpec =
  Type :: string
  Number :: int64

record 'f ResourceSpec =
  Cpu :: 'f
  Memory :: string
  Gpu :: "GPUSpec option"
  Disk :: string

text \<open>The resource names of the Kubernetes API (\<open>v1.ResourceName\<close> is a string).\<close>

definition ResourceCPU :: string where "ResourceCPU = ''cpu''"
definition ResourceMemory :: string where "ResourceMemory = ''memory''"
definition ResourceEphemeralStorage :: string where
  "ResourceEphemeralStorage = ''ephemeral-storage''"

text \<open>\<open>fmt.Sprintf("%d", n)\<close> for an \<open>int64\<close>: the decimal digits, with a sign.\<close>

fun decimal :: "nat \<Rightarrow> string" where
  "decimal n =
     (if n < 10 then [char_of (48 + n)]
      else decimal (n div 10) @ [char_of (48 + n mod 10)])"

definition Sprintf_d :: "int64 \<Rightarrow> string" where
  "Sprintf_d n =
     (if sint n < 0 then CHR ''-'' # decimal (nat (- sint n)) else decimal (nat (sint n)))"

text \<open>
  \<open>getResourceListFromSpec\<close>. Two functions of other packages are parameters:
  \<open>ParseQuantity\<close> is \<open>resource.ParseQuantity\<close>, which returns a quantity and an
  error (nil is \<open>None\<close>), and \<open>Sprintf_f\<close> is \<open>fmt.Sprintf("%f", _)\<close>. Quantities
  are of a type \<open>'q\<close> ordered by their numeric value, so that
  \<open>a.Cmp(b) > 0\<close> is \<open>a > b\<close>. The warnings the code logs are not modelled. The
  result is the resource list and the error, which is always nil.
\<close>

definition getResourceListFromSpec ::
  "(string \<Rightarrow> ('q::linorder) \<times> error option) \<Rightarrow> ('f \<Rightarrow> string) \<Rightarrow>
   'f ResourceSpec \<Rightarrow> string \<Rightarrow> (string \<rightharpoonup> 'q) \<times> error option" where
  "getResourceListFromSpec ParseQuantity Sprintf_f resources cacheSize =
     (let result0 = Map.empty;
          cpuStr = Sprintf_f (Cpu resources);
          (cpuQuantity, err1) = ParseQuantity cpuStr;
          result1 = (if err1 \<noteq> None then result0 else result0(ResourceCPU \<mapsto> cpuQuantity));
          (memQuantity, err2) = ParseQuantity (Memory resources);
          result2 = (if err2 \<noteq> None then result1
                     else result1(ResourceMemory \<mapsto> memQuantity));
          result3 =
            (if Disk resources \<noteq> []
             then (let (diskQuantity, err3) = ParseQuantity (Disk resources)
                   in if err3 \<noteq> None then result2
                      else result2(ResourceEphemeralStorage \<mapsto> diskQuantity))
             else result2);
          (cacheQuantity, err4) = ParseQuantity cacheSize;
          result4 = (if err4 \<noteq> None then result3
                     else if cacheQuantity > memQuantity
                       then result3(ResourceMemory \<mapsto> cacheQuantity)
                     else result3);
          result5 =
            (case Gpu resources of
               None \<Rightarrow> result4
             | Some gpu \<Rightarrow>
                 (let gpuStr = Sprintf_d (Number gpu);
                      (gpuQuantity, err5) = ParseQuantity gpuStr
                  in if err5 \<noteq> None then result4
                     else result4(Type gpu \<mapsto> gpuQuantity)))
      in (result5, None))"

text \<open>
  What the theorems on \<open>getResourceListFromSpec\<close> speak of: the entry its last
  section (lines 98 to 106) writes, if it writes one. The key is the type of the
  GPU, any string, so the entry can replace one of the three entries before it.
\<close>

definition gpuEntry ::
  "(string \<Rightarrow> 'q \<times> error option) \<Rightarrow> 'f ResourceSpec \<Rightarrow> (string \<times> 'q) option" where
  "gpuEntry ParseQuantity resources =
     (case Gpu resources of
        None \<Rightarrow> None
      | Some gpu \<Rightarrow>
          (let (gpuQuantity, err5) = ParseQuantity (Sprintf_d (Number gpu))
           in if err5 \<noteq> None then None else Some (Type gpu, gpuQuantity)))"

text \<open>
  The resource list before the last section of the function: the entries for the
  three fixed keys.
\<close>

definition fixedEntries ::
  "(string \<Rightarrow> ('q::linorder) \<times> error option) \<Rightarrow> ('f \<Rightarrow> string) \<Rightarrow>
   'f ResourceSpec \<Rightarrow> string \<Rightarrow> (string \<rightharpoonup> 'q)" where
  "fixedEntries P F r cacheSize k =
     (if k = ResourceMemory then
        (if snd (P cacheSize) = None \<and> fst (P cacheSize) > fst (P (Memory r))
         then Some (fst (P cacheSize))
         else if snd (P (Memory r)) = None then Some (fst (P (Memory r))) else None)
      else if k = ResourceEphemeralStorage then
        (if Disk r \<noteq> [] \<and> snd (P (Disk r)) = None then Some (fst (P (Disk r))) else None)
      else if k = ResourceCPU then
        (if snd (P (F (Cpu r))) = None then Some (fst (P (F (Cpu r)))) else None)
      else None)"

text \<open>
  For the examples: the results of \<open>resource.ParseQuantity\<close> on the strings the
  examples use, with quantities as natural numbers, and \<open>fmt.Sprintf("%f", _)\<close> on
  a whole number of cores. \<open>resource.ParseQuantity\<close> returns the zero quantity with
  its error.
\<close>

definition exampleParseQuantity :: "string \<Rightarrow> nat \<times> error option" where
  "exampleParseQuantity str =
     (if str = ''2.000000'' then (2, None)
      else if str = ''2'' then (2, None)
      else if str = ''32'' then (32, None)
      else if str = ''64'' then (64, None)
      else (0, Some ErrFormatWrong))"

definition exampleSprintf_f :: "nat \<Rightarrow> string" where
  "exampleSprintf_f cores = decimal cores @ ''.000000''"

subsection \<open>GetExpectedNumWorkers\<close>

text \<open>
  The tests and operations on \<open>float64\<close> that \<open>GetExpectedNumWorkers\<close> uses are
  parameters, over a type \<open>'f\<close> of \<open>float64\<close> values: \<open>isZero x\<close> is
  \<open>x == 0\<close>, \<open>isPos x\<close> is \<open>x > 0\<close>, \<open>float64_of n\<close> is the conversion
  \<open>float64(n)\<close>, \<open>times\<close> is the product, \<open>math_Floor\<close> and \<open>math_Max\<close> are
  the functions of package \<open>math\<close>, and \<open>int_of x\<close> is the conversion \<open>int(x)\<close>.
\<close>

record 'f float64_ops =
  isZero :: "'f \<Rightarrow> bool"
  isPos :: "'f \<Rightarrow> bool"
  float64_of :: "int \<Rightarrow> 'f"
  times :: "'f \<Rightarrow> 'f \<Rightarrow> 'f"
  math_Floor :: "'f \<Rightarrow> 'f"
  math_Max :: "'f \<Rightarrow> 'f \<Rightarrow> 'f"
  int_of :: "'f \<Rightarrow> int"





subsection \<open>JobInput\<close>

text \<open>
  \<open>pfs.Commit\<close> with \<open>Repo_Name\<close> for \<open>commit.Repo.Name\<close>;
  \<open>pfs.CommitProvenance\<close> with \<open>Branch_Name\<close> for \<open>prov.Branch.Name\<close>;
  \<open>pfs.CommitInfo\<close> with its provenance.
\<close>

record Commit =
  Repo_Name :: string
  ID :: string

record CommitProvenance =
  Commit_prov :: Commit
  Branch_Name :: string

record CommitInfo =
  Provenance :: "CommitProvenance list"

text \<open>
  Modelled from the spec: the declarations of the three kinds of leaf of
  \<open>pps.Input\<close> are not among the sources. The spec gives every leaf a repository,
  a branch and a commit, the repository of a git leaf being its name.
  \<open>JobInput\<close> reads the repository (or name) and the branch of a pfs and of a git
  leaf, and the repository only of a cron leaf; it writes the commit. The fields of
  the cron and git leaves carry a suffix.
\<close>

record PFSInput =
  Repo :: string
  Branch :: string
  Commit :: string

record CronInput =
  Repo_cron :: string
  Branch_cron :: string
  Commit_cron :: string

record GitInput =
  Name_git :: string
  Branch_git :: string
  Commit_git :: string

text \<open>
  \<open>pps.Input\<close>: a node has three leaf pointers (nil is \<open>None\<close>) and two lists of
  children (\<open>Union\<close> carries a suffix, the name being taken in HOL).
\<close>

datatype Input =
  Input (Pfs: "PFSInput option") (Cron: "CronInput option") (Git: "GitInput option")
    (Cross: "Input list") (Union_in: "Input list")

record PipelineInfo =
  Input_of :: Input

text \<open>
  Modelled from the spec: \<open>pps.VisitInput\<close> is not among the sources. The spec has
  the resolver visit every leaf of the tree, a structural recursion over the leaves
  and the composite operators. The callback is applied to every node, children
  first; where the Go callback updates the node in place, \<open>f\<close> returns the updated
  node.
\<close>

fun VisitInput :: "(Input \<Rightarrow> Input) \<Rightarrow> Input \<Rightarrow> Input" where
  "VisitInput f (Input pfs cron git cross unions) =
     f (Input pfs cron git (map (VisitInput f) cross) (map (VisitInput f) unions))"

text \<open>
  \<open>path.Join\<close> of the Go standard library, for two elements: the elements from
  the first one that is not empty are joined with a slash and the result is cleaned.
  \<open>path.Clean\<close> drops empty elements and \<open>.\<close>, and drops a \<open>..\<close> with the
  element before it; a \<open>..\<close> with no element before it stays in a path that does
  not start with a slash and is dropped in one that does. The empty path is
  cleaned to \<open>.\<close>.
\<close>

fun splitSlash :: "string \<Rightarrow> string list" where
  "splitSlash [] = [[]]"
| "splitSlash (c # cs) =
     (if c = CHR ''/'' then [] # splitSlash cs
      else (case splitSlash cs of e # es \<Rightarrow> (c # e) # es | [] \<Rightarrow> [[c]]))"

fun cleanElems :: "bool \<Rightarrow> string list \<Rightarrow> string list \<Rightarrow> string list" where
  "cleanElems rooted out [] = rev out"
| "cleanElems rooted out (e # es) =
     (if e = [] \<or> e = ''.'' then cleanElems rooted out es
      else if e = ''..'' then
        (case out of
           e1 # rest \<Rightarrow>
             if e1 \<noteq> ''..'' then cleanElems rooted rest es
             else cleanElems rooted (e # out) es
         | [] \<Rightarrow> if rooted then cleanElems rooted out es else cleanElems rooted [e] es)
      else cleanElems rooted (e # out) es)"

fun joinSlash :: "string list \<Rightarrow> string" where
  "joinSlash [] = []"
| "joinSlash [e] = e"
| "joinSlash (e # es) = e @ CHR ''/'' # joinSlash es"

definition path_Clean :: "string \<Rightarrow> string" where
  "path_Clean path =
     (if path = [] then ''.''
      else (let rooted = (hd path = CHR ''/'');
                body = joinSlash (cleanElems rooted [] (splitSlash path))
            in if rooted then CHR ''/'' # body
               else if body = [] then ''.'' else body))"

definition path_Join :: "string \<Rightarrow> string \<Rightarrow> string" where
  "path_Join a b =
     (if a \<noteq> [] then path_Clean (a @ ''/'' @ b)
      else if b \<noteq> [] then path_Clean b
      else [])"

text \<open>
  The loop of \<open>JobInput\<close> that builds \<open>branchToCommit\<close>. \<open>key\<close>, which is
  \<open>path.Join\<close> in the code, is an argument of the functions here, and the
  theorems hold for every key; the examples are at \<open>path_Join\<close>.
\<close>

definition branchToCommit ::
  "(string \<Rightarrow> string \<Rightarrow> string) \<Rightarrow> CommitProvenance list \<Rightarrow> (string \<rightharpoonup> Commit)" where
  "branchToCommit key provenance =
     foldl (\<lambda>m prov. m(key (Repo_Name (Commit_prov prov)) (Branch_Name prov) \<mapsto> Commit_prov prov))
       Map.empty provenance"

text \<open>The callback \<open>JobInput\<close> passes to \<open>VisitInput\<close>: three independent tests.\<close>

definition setCommits ::
  "(string \<Rightarrow> string \<Rightarrow> string) \<Rightarrow> (string \<rightharpoonup> Commit) \<Rightarrow> Input \<Rightarrow> Input" where
  "setCommits key b2c input =
     (let pfs' = (case Pfs input of
                    None \<Rightarrow> None
                  | Some pfs \<Rightarrow>
                      (case b2c (key (Repo pfs) (Branch pfs)) of
                         Some commit \<Rightarrow> Some (pfs\<lparr>Commit := ID commit\<rparr>)
                       | None \<Rightarrow> Some pfs));
          cron' = (case Cron input of
                     None \<Rightarrow> None
                   | Some cron \<Rightarrow>
                       (case b2c (key (Repo_cron cron) ''master'') of
                          Some commit \<Rightarrow> Some (cron\<lparr>Commit_cron := ID commit\<rparr>)
                        | None \<Rightarrow> Some cron));
          git' = (case Git input of
                    None \<Rightarrow> None
                  | Some git \<Rightarrow>
                      (case b2c (key (Name_git git) (Branch_git git)) of
                         Some commit \<Rightarrow> Some (git\<lparr>Commit_git := ID commit\<rparr>)
                       | None \<Rightarrow> Some git))
      in Input pfs' cron' git' (Cross input) (Union_in input))"

text \<open>
  \<open>JobInput\<close>. \<open>proto.Clone\<close> copies the template, so the result is a new tree and
  the template is as it was.
\<close>

definition JobInput ::
  "(string \<Rightarrow> string \<Rightarrow> string) \<Rightarrow> PipelineInfo \<Rightarrow> CommitInfo \<Rightarrow> Input" where
  "JobInput key pipelineInfo outputCommitInfo =
     VisitInput (setCommits key (branchToCommit key (Provenance outputCommitInfo)))
       (Input_of pipelineInfo)"

text \<open>
  What the theorems on \<open>JobInput\<close> speak of: the leaves of each kind in a tree, in
  the order of the visit, and the last provenance entry stored under a key.
\<close>

fun pfsLeaves :: "Input \<Rightarrow> PFSInput list" where
  "pfsLeaves (Input pfs cron git cross unions) =
     concat (map pfsLeaves cross) @ concat (map pfsLeaves unions) @
     (case pfs of None \<Rightarrow> [] | Some l \<Rightarrow> [l])"

fun cronLeaves :: "Input \<Rightarrow> CronInput list" where
  "cronLeaves (Input pfs cron git cross unions) =
     concat (map cronLeaves cross) @ concat (map cronLeaves unions) @
     (case cron of None \<Rightarrow> [] | Some l \<Rightarrow> [l])"

fun gitLeaves :: "Input \<Rightarrow> GitInput list" where
  "gitLeaves (Input pfs cron git cross unions) =
     concat (map gitLeaves cross) @ concat (map gitLeaves unions) @
     (case git of None \<Rightarrow> [] | Some l \<Rightarrow> [l])"

fun lastEntry ::
  "(string \<Rightarrow> string \<Rightarrow> string) \<Rightarrow> CommitProvenance list \<Rightarrow> string \<Rightarrow> Commit option" where
  "lastEntry key [] k = None"
| "lastEntry key (prov # provs) k =
     (case lastEntry key provs k of
        Some commit \<Rightarrow> Some commit
      | None \<Rightarrow>
          (if key (Repo_Name (Commit_prov prov)) (Branch_Name prov) = k
           then Some (Commit_prov prov) else None))"


text \<open>The last provenance entry of a repository and a branch.\<close>

fun lastPair :: "CommitProvenance list \<Rightarrow> string \<Rightarrow> string \<Rightarrow> Commit option" where
  "lastPair [] repo branch = None"
| "lastPair (prov # provs) repo branch =
     (case lastPair provs repo branch of
        Some commit \<Rightarrow> Some commit
      | None \<Rightarrow>
          (if Repo_Name (Commit_prov prov) = repo \<and> Branch_Name prov = branch
           then Some (Commit_prov prov) else None))"

section \<open>Theorems\<close>

lemmas JobState_defs =
  JOB_STARTING_def JOB_RUNNING_def JOB_FAILURE_def JOB_SUCCESS_def JOB_KILLED_def
  JOB_MERGING_def

lemma IsTerminal_recognized:
  "IsTerminal JOB_SUCCESS = Inr True" "IsTerminal JOB_FAILURE = Inr True"
  "IsTerminal JOB_KILLED = Inr True" "IsTerminal JOB_STARTING = Inr False"
  "IsTerminal JOB_RUNNING = Inr False" "IsTerminal JOB_MERGING = Inr False"
  by (simp_all add: IsTerminal_def JobState_defs)

subsection \<open>Helper lemmas on UpdateJobState\<close>

lemma updateJobCounts_no_panic: "\<exists>p'. updateJobCounts p old st = Inr p'"
  by (auto simp: updateJobCounts_def mapAssign_def Let_def
      split: option.splits sum.splits if_splits)

lemma updateJobCounts_LastJobState:
  "updateJobCounts p old st = Inr p' \<Longrightarrow> LastJobState p' = st"
  by (auto simp: updateJobCounts_def mapAssign_def Let_def
      split: option.splits sum.splits if_splits)

lemma UpdateJobState_rejected:
  "State j = JOB_FAILURE \<Longrightarrow>
   UpdateJobState ps js j st r now =
     (Returned (Some (IllegalTransition (Job_ID j) st)), ps, js, j)"
  by (simp add: UpdateJobState_def)

lemma UpdateJobState_not_rejected:
  "State j \<noteq> JOB_FAILURE \<Longrightarrow>
   \<not> isIllegalTransition (fst (UpdateJobState ps js j st r now))"
  by (auto simp: UpdateJobState_def Get_def Put_def updateTimestamps_def Let_def
      split: option.splits sum.splits if_splits prod.splits bool.splits)

lemma updateTimestamps_Job_ID:
  "updateTimestamps j st now = Inr (j1, e) \<Longrightarrow> Job_ID j1 = Job_ID j"
  by (auto simp: updateTimestamps_def split: if_splits sum.splits bool.splits)

lemma updateTimestamps_ok:
  "IsTerminal st = Inr b \<Longrightarrow> \<exists>j1. updateTimestamps j st (Some t) = Inr (j1, None)"
  by (auto simp: updateTimestamps_def split: bool.splits)

text \<open>The path on which nothing fails: both records are written.\<close>

lemma UpdateJobState_proceeds:
  assumes "State j \<noteq> JOB_FAILURE" and "ps (Pipeline_Name j) = Some p"
    and "updateJobCounts p (State j) st = Inr p'"
    and "updateTimestamps j st now = Inr (j1, None)"
  shows "UpdateJobState ps js j st r now =
    (Returned None, ps(Pipeline_Name j \<mapsto> p'),
     js(Job_ID j \<mapsto> j1\<lparr>State := st, Reason := r\<rparr>), j1\<lparr>State := st, Reason := r\<rparr>)"
  using assms updateTimestamps_Job_ID [OF assms(4)]
  by (simp add: UpdateJobState_def Get_def Put_def Let_def)

subsection \<open>C1: only a job in FAILURE is rejected\<close>

text \<open>
  C1. \<open>UpdateJobState\<close> returns the \<open>IllegalTransition\<close> error if and only if the
  job is in state \<open>JOB_FAILURE\<close>. In that case the call returns before it reads or
  writes anything: the two collections and the job record are returned as they were
  given. In every other state of the job, the terminal states \<open>JOB_SUCCESS\<close> and
  \<open>JOB_KILLED\<close> among them, the call goes on: when the pipeline record is there,
  the new state is a recognized one and the clock reading converts, it returns nil,
  having written the pipeline record and the job record in its new state.
\<close>

theorem UpdateJobState_rejects_iff_failure:
  "(isIllegalTransition (fst (UpdateJobState pipelines jobs jobPtr state reason now))
      \<longleftrightarrow> State jobPtr = JOB_FAILURE) \<and>
   (State jobPtr = JOB_FAILURE \<longrightarrow>
      UpdateJobState pipelines jobs jobPtr state reason now =
        (Returned (Some (IllegalTransition (Job_ID jobPtr) state)), pipelines, jobs, jobPtr)) \<and>
   (State jobPtr \<noteq> JOB_FAILURE \<longrightarrow> pipelines (Pipeline_Name jobPtr) = Some pipelinePtr \<longrightarrow>
    IsTerminal state = Inr b \<longrightarrow> now = Some t \<longrightarrow>
      (case UpdateJobState pipelines jobs jobPtr state reason now of
         (out, pipelines', jobs', jobPtr') \<Rightarrow>
           out = Returned None \<and> State jobPtr' = state \<and> Reason jobPtr' = reason \<and>
           jobs' (Job_ID jobPtr) = Some jobPtr' \<and>
           map_option LastJobState (pipelines' (Pipeline_Name jobPtr)) = Some state))"
proof (intro conjI impI)
  show "isIllegalTransition (fst (UpdateJobState pipelines jobs jobPtr state reason now))
      \<longleftrightarrow> State jobPtr = JOB_FAILURE"
    using UpdateJobState_not_rejected [of jobPtr pipelines jobs state reason now]
    by (auto simp: UpdateJobState_rejected)
next
  assume "State jobPtr = JOB_FAILURE"
  then show "UpdateJobState pipelines jobs jobPtr state reason now =
        (Returned (Some (IllegalTransition (Job_ID jobPtr) state)), pipelines, jobs, jobPtr)"
    by (rule UpdateJobState_rejected)
next
  assume a: "State jobPtr \<noteq> JOB_FAILURE" "pipelines (Pipeline_Name jobPtr) = Some pipelinePtr"
    "IsTerminal state = Inr b" "now = Some t"
  obtain p' where p': "updateJobCounts pipelinePtr (State jobPtr) state = Inr p'"
    using updateJobCounts_no_panic by blast
  obtain j1 where j1: "updateTimestamps jobPtr state now = Inr (j1, None)"
    using updateTimestamps_ok [OF a(3)] a(4) by blast
  show "case UpdateJobState pipelines jobs jobPtr state reason now of
         (out, pipelines', jobs', jobPtr') \<Rightarrow>
           out = Returned None \<and> State jobPtr' = state \<and> Reason jobPtr' = reason \<and>
           jobs' (Job_ID jobPtr) = Some jobPtr' \<and>
           map_option LastJobState (pipelines' (Pipeline_Name jobPtr)) = Some state"
    using UpdateJobState_proceeds [of jobPtr pipelines pipelinePtr state p' now j1 jobs reason]
      a(1) a(2) p' j1 updateJobCounts_LastJobState [OF p']
    by simp
qed

text \<open>
  The theorem at a job in \<open>JOB_FAILURE\<close>, which is rejected, and at a job in
  \<open>JOB_SUCCESS\<close> that is killed, which is not.
\<close>

theorem UpdateJobState_rejects_iff_failure_witness:
  "State \<lparr>Job_ID = ''j1'', Pipeline_Name = ''p'', State = JOB_FAILURE, Reason = '''',
          Started = None, Finished = None\<rparr> = JOB_FAILURE \<and>
   UpdateJobState Map.empty Map.empty
     \<lparr>Job_ID = ''j1'', Pipeline_Name = ''p'', State = JOB_FAILURE, Reason = '''',
      Started = None, Finished = None\<rparr> JOB_RUNNING ''retry'' None =
     (Returned (Some (IllegalTransition ''j1'' JOB_RUNNING)), Map.empty, Map.empty,
      \<lparr>Job_ID = ''j1'', Pipeline_Name = ''p'', State = JOB_FAILURE, Reason = '''',
       Started = None, Finished = None\<rparr>) \<and>
   State \<lparr>Job_ID = ''j2'', Pipeline_Name = ''p'', State = JOB_SUCCESS, Reason = '''',
          Started = None, Finished = None\<rparr> \<noteq> JOB_FAILURE \<and>
   [''p'' \<mapsto> \<lparr>State_p = PIPELINE_RUNNING, Reason_p = '''', JobCounts = None,
              LastJobState = JOB_SUCCESS, SpecCommit = ''c''\<rparr>] ''p'' =
     Some \<lparr>State_p = PIPELINE_RUNNING, Reason_p = '''', JobCounts = None,
              LastJobState = JOB_SUCCESS, SpecCommit = ''c''\<rparr> \<and>
   IsTerminal JOB_KILLED = Inr True \<and>
   fst (UpdateJobState
     [''p'' \<mapsto> \<lparr>State_p = PIPELINE_RUNNING, Reason_p = '''', JobCounts = None,
              LastJobState = JOB_SUCCESS, SpecCommit = ''c''\<rparr>] Map.empty
     \<lparr>Job_ID = ''j2'', Pipeline_Name = ''p'', State = JOB_SUCCESS, Reason = '''',
      Started = None, Finished = None\<rparr> JOB_KILLED ''stop''
     (Some \<lparr>Seconds = 7, Nanos = 0\<rparr>)) = Returned None"
  using UpdateJobState_rejects_iff_failure
    [of Map.empty Map.empty
      "\<lparr>Job_ID = ''j1'', Pipeline_Name = ''p'', State = JOB_FAILURE, Reason = '''',
        Started = None, Finished = None\<rparr>" JOB_RUNNING "''retry''" None]
    UpdateJobState_rejects_iff_failure
    [of "[''p'' \<mapsto> \<lparr>State_p = PIPELINE_RUNNING, Reason_p = '''', JobCounts = None,
              LastJobState = JOB_SUCCESS, SpecCommit = ''c''\<rparr>]" Map.empty
      "\<lparr>Job_ID = ''j2'', Pipeline_Name = ''p'', State = JOB_SUCCESS, Reason = '''',
        Started = None, Finished = None\<rparr>" JOB_KILLED "''stop''"
      "Some \<lparr>Seconds = 7, Nanos = 0\<rparr>"
      "\<lparr>State_p = PIPELINE_RUNNING, Reason_p = '''', JobCounts = None,
              LastJobState = JOB_SUCCESS, SpecCommit = ''c''\<rparr>" True "\<lparr>Seconds = 7, Nanos = 0\<rparr>"]
  by (simp add: IsTerminal_def JobState_defs split: prod.splits)

subsection \<open>Helper lemmas on the job counts\<close>

text \<open>Decrement and increment of an \<open>int32\<close> that do not wrap around.\<close>

lemma sint_dec32:
  fixes c :: int32
  assumes "c \<noteq> 0" and "0 \<le> sint c"
  shows "sint (c - 1) = sint c - 1"
proof -
  have "sint c \<noteq> 0" using assms(1) by (metis signed_eq_0_iff)
  then have pos: "0 < sint c" using assms(2) by simp
  have "sint c < 2 ^ 31" using sint_lt [of c] by simp
  then show ?thesis using pos
    by (simp add: sint_word_ariths signed_take_bit_int_eq_self)
qed

lemma sint_inc32:
  fixes c :: int32
  assumes "0 \<le> sint c" and "sint c < 2 ^ 31 - 1"
  shows "sint (c + 1) = sint c + 1"
  using assms by (simp add: sint_word_ariths signed_take_bit_int_eq_self)

lemma sumCounts_upd:
  "sumCounts (Some (f(k \<mapsto> v))) = sumCounts (Some f) - sint (mapIndex (Some f) k) + sint v"
proof -
  have fin: "finite (dom f)" by simp
  have eq: "(\<Sum>x \<in> dom f - {k}. sint (mapIndex (Some (f(k \<mapsto> v))) x)) =
            (\<Sum>x \<in> dom f - {k}. sint (mapIndex (Some f) x))"
    by (rule sum.cong) (auto simp: mapIndex_def)
  have new: "sumCounts (Some (f(k \<mapsto> v))) =
      sint v + (\<Sum>x \<in> dom f - {k}. sint (mapIndex (Some f) x))"
    using fin eq by (simp add: sumCounts_def sum.insert_remove mapIndex_def)
  show ?thesis
  proof (cases "k \<in> dom f")
    case True
    then have "sumCounts (Some f) =
        sint (mapIndex (Some f) k) + (\<Sum>x \<in> dom f - {k}. sint (mapIndex (Some f) x))"
      using fin by (simp add: sumCounts_def sum.remove)
    with new show ?thesis by simp
  next
    case False
    then have "mapIndex (Some f) k = 0" "dom f - {k} = dom f"
      by (auto simp: mapIndex_def split: option.splits)
    with new show ?thesis by (simp add: sumCounts_def)
  qed
qed


lemma UpdateJobState_committed:
  assumes "UpdateJobState ps js j st r now = (Returned None, ps', js', j')"
  shows "\<exists>p p'. ps (Pipeline_Name j) = Some p \<and> updateJobCounts p (State j) st = Inr p' \<and>
           ps' = ps(Pipeline_Name j \<mapsto> p') \<and> State j \<noteq> JOB_FAILURE"
  using assms
  by (auto simp: UpdateJobState_def Get_def Put_def Let_def
      split: if_splits option.splits sum.splits prod.splits)

lemma updateJobCounts_floor:
  assumes "updateJobCounts p old st = Inr p'" and "mapIndex (JobCounts p) old = 0"
  shows "\<exists>f. mapIndex (JobCounts p) = mapIndex (Some f) \<and>
           sumCounts (JobCounts p) = sumCounts (Some f) \<and>
           JobCounts p' = Some (f(st \<mapsto> mapIndex (Some f) st + 1))"
proof (cases "JobCounts p")
  case None
  then have "mapIndex (JobCounts p) = mapIndex (Some Map.empty)"
    by (auto simp: mapIndex_def)
  moreover have "sumCounts (JobCounts p) = sumCounts (Some Map.empty)"
    using None by (simp add: sumCounts_def)
  moreover have "JobCounts p' =
      Some ((Map.empty :: int32 \<rightharpoonup> int32)(st \<mapsto> mapIndex (Some Map.empty) st + 1))"
    using assms None by (auto simp: updateJobCounts_def mapAssign_def mapIndex_def)
  ultimately show ?thesis by blast
next
  case (Some f)
  then show ?thesis using assms
    by (intro exI [of _ f]) (auto simp: updateJobCounts_def mapAssign_def Let_def)
qed

lemma updateJobCounts_decrement:
  assumes "updateJobCounts p old st = Inr p'" and "mapIndex (JobCounts p) old \<noteq> 0"
  shows "\<exists>f. JobCounts p = Some f \<and>
           JobCounts p' =
             Some (f(old \<mapsto> mapIndex (Some f) old - 1,
                     st \<mapsto> mapIndex (Some (f(old \<mapsto> mapIndex (Some f) old - 1))) st + 1))"
proof (cases "JobCounts p")
  case None
  then show ?thesis using assms(2) by (simp add: mapIndex_def)
next
  case (Some f)
  then show ?thesis using assms
    by (auto simp: updateJobCounts_def mapAssign_def Let_def)
qed


lemma updateJobCounts_pointwise:
  assumes "updateJobCounts p old st = Inr p'"
  shows "(old \<noteq> st \<longrightarrow>
            mapIndex (JobCounts p') old =
              (if mapIndex (JobCounts p) old = 0 then 0 else mapIndex (JobCounts p) old - 1) \<and>
            mapIndex (JobCounts p') st = mapIndex (JobCounts p) st + 1) \<and>
         (old = st \<longrightarrow>
            mapIndex (JobCounts p') st =
              (if mapIndex (JobCounts p) st = 0 then 1 else mapIndex (JobCounts p) st)) \<and>
         (\<forall>k. k \<noteq> old \<and> k \<noteq> st \<longrightarrow> mapIndex (JobCounts p') k = mapIndex (JobCounts p) k)"
proof (cases "mapIndex (JobCounts p) old = 0")
  case True
  from updateJobCounts_floor [OF assms True] obtain f where
    f: "mapIndex (JobCounts p) = mapIndex (Some f)"
       "JobCounts p' = Some (f(st \<mapsto> mapIndex (Some f) st + 1))"
    by blast
  have "mapIndex (Some f) old = 0" using True f(1) by simp
  then show ?thesis using f by (auto simp: mapIndex_def)
next
  case False
  from updateJobCounts_decrement [OF assms False] obtain f where
    f: "JobCounts p = Some f"
       "JobCounts p' =
             Some (f(old \<mapsto> mapIndex (Some f) old - 1,
                     st \<mapsto> mapIndex (Some (f(old \<mapsto> mapIndex (Some f) old - 1))) st + 1))"
    by blast
  have "mapIndex (Some f) old \<noteq> 0" using False f(1) by simp
  then show ?thesis using f by (auto simp: mapIndex_def)
qed

lemma updateJobCounts_sum:
  assumes "updateJobCounts p old st = Inr p'"
    and nonneg: "\<forall>k. 0 \<le> sint (mapIndex (JobCounts p) k)"
    and room: "sint (mapIndex (JobCounts p) st) < 2 ^ 31 - 1"
  shows "sumCounts (JobCounts p') =
           sumCounts (JobCounts p) + (if mapIndex (JobCounts p) old = 0 then 1 else 0)"
proof (cases "mapIndex (JobCounts p) old = 0")
  case True
  from updateJobCounts_floor [OF assms(1) True] obtain f where
    f: "mapIndex (JobCounts p) = mapIndex (Some f)"
       "sumCounts (JobCounts p) = sumCounts (Some f)"
       "JobCounts p' = Some (f(st \<mapsto> mapIndex (Some f) st + 1))"
    by blast
  have "sint (mapIndex (Some f) st + 1) = sint (mapIndex (Some f) st) + 1"
    using nonneg room f(1) by (intro sint_inc32) auto
  then show ?thesis using True f by (simp add: sumCounts_upd)
next
  case False
  from updateJobCounts_decrement [OF assms(1) False] obtain f where
    f: "JobCounts p = Some f"
       "JobCounts p' =
             Some (f(old \<mapsto> mapIndex (Some f) old - 1,
                     st \<mapsto> mapIndex (Some (f(old \<mapsto> mapIndex (Some f) old - 1))) st + 1))"
    by blast
  let ?c = "mapIndex (Some f) old"
  let ?f1 = "f(old \<mapsto> ?c - 1)"
  have c: "?c \<noteq> 0" "0 \<le> sint ?c" using False f(1) nonneg by auto
  have dec: "sint (?c - 1) = sint ?c - 1" using c by (rule sint_dec32)
  have s1: "sumCounts (Some ?f1) = sumCounts (Some f) - 1"
    using dec by (simp add: sumCounts_upd)
  have inc: "sint (mapIndex (Some ?f1) st + 1) = sint (mapIndex (Some ?f1) st) + 1"
  proof (cases "st = old")
    case True
    then have "mapIndex (Some ?f1) st = ?c - 1" by (simp add: mapIndex_def)
    moreover have "0 \<le> sint (?c - 1)" "sint (?c - 1) < 2 ^ 31 - 1"
      using dec c sint_lt [of ?c] by (auto simp: signed_eq_0_iff order_less_le)
    ultimately show ?thesis using dec by simp
  next
    case False
    then have "mapIndex (Some ?f1) st = mapIndex (JobCounts p) st"
      using f(1) by (simp add: mapIndex_def)
    then show ?thesis using nonneg room by (simp add: sint_inc32)
  qed
  have "sumCounts (JobCounts p') =
      sumCounts (Some ?f1) - sint (mapIndex (Some ?f1) st) + sint (mapIndex (Some ?f1) st + 1)"
    using f(2) by (simp add: sumCounts_upd)
  then show ?thesis using inc s1 False f(1) by simp
qed


lemma updateJobCounts_nonneg:
  assumes "updateJobCounts p old st = Inr p'"
    and nonneg: "\<forall>k. 0 \<le> sint (mapIndex (JobCounts p) k)"
    and room: "sint (mapIndex (JobCounts p) st) < 2 ^ 31 - 1"
  shows "0 \<le> sint (mapIndex (JobCounts p') k)"
proof -
  note pw = updateJobCounts_pointwise [OF assms(1)]
  have c: "0 \<le> sint (mapIndex (JobCounts p) old)" "0 \<le> sint (mapIndex (JobCounts p) st)"
    "0 \<le> sint (mapIndex (JobCounts p) k)"
    using nonneg by auto
  have dec: "mapIndex (JobCounts p) old \<noteq> 0 \<Longrightarrow> 0 \<le> sint (mapIndex (JobCounts p) old - 1)"
    using c(1) by (simp add: sint_dec32 signed_eq_0_iff order_less_le)
  have inc: "0 \<le> sint (mapIndex (JobCounts p) st + 1)"
    using c(2) room by (simp add: sint_inc32)
  consider "k = old" "old \<noteq> st" | "k = st" "old \<noteq> st" | "k = st" "old = st"
    | "k \<noteq> old" "k \<noteq> st" by blast
  then show ?thesis
  proof cases
    case 1 then show ?thesis using pw dec by auto
  next
    case 2 then show ?thesis using pw inc by auto
  next
    case 3 then show ?thesis using pw c(2) by auto
  next
    case 4 then show ?thesis using pw c(3) by auto
  qed
qed

text \<open>Evaluation of \<open>UpdateJobState\<close> on concrete records.\<close>

lemmas UpdateJobState_eval =
  UpdateJobState_def Get_def Put_def updateJobCounts_def updateTimestamps_def mapIndex_def
  mapAssign_def IsTerminal_def JobState_defs Let_def

subsection \<open>C2: the job counts of the pipeline\<close>

text \<open>
  C2, as amended. When \<open>UpdateJobState\<close> returns nil, the pipeline record was
  there and has been written back with these counts, \<open>old\<close> being the state of
  the job before the call. If \<open>old\<close> differs from the new state, the count of
  \<open>old\<close> is one less than before, or still 0 if it was 0, and the count of the new
  state is one more; if they are the same state, its count is as before, or 1 if it
  was 0; no other count changes. These are \<open>int32\<close> operations. If moreover no
  count was negative and the count of the new state was below the largest
  \<open>int32\<close>, then no count is negative afterwards, the two changes are changes by
  exactly 1 as integers, and the sum of all counts is as before when the count of
  \<open>old\<close> was not 0, and one more than before when it was 0 (the decrement that
  the floor skips is not made up for).
\<close>

theorem UpdateJobState_jobCounts:
  assumes "UpdateJobState pipelines jobs jobPtr state reason now =
             (Returned None, pipelines', jobs', jobPtr')"
  shows "\<exists>p p'. pipelines (Pipeline_Name jobPtr) = Some p \<and>
           pipelines' (Pipeline_Name jobPtr) = Some p' \<and>
           (State jobPtr \<noteq> state \<longrightarrow>
              mapIndex (JobCounts p') (State jobPtr) =
                (if mapIndex (JobCounts p) (State jobPtr) = 0 then 0
                 else mapIndex (JobCounts p) (State jobPtr) - 1) \<and>
              mapIndex (JobCounts p') state = mapIndex (JobCounts p) state + 1) \<and>
           (State jobPtr = state \<longrightarrow>
              mapIndex (JobCounts p') state =
                (if mapIndex (JobCounts p) state = 0 then 1 else mapIndex (JobCounts p) state)) \<and>
           (\<forall>k. k \<noteq> State jobPtr \<and> k \<noteq> state \<longrightarrow>
              mapIndex (JobCounts p') k = mapIndex (JobCounts p) k) \<and>
           ((\<forall>k. 0 \<le> sint (mapIndex (JobCounts p) k)) \<and>
            sint (mapIndex (JobCounts p) state) < 2 ^ 31 - 1 \<longrightarrow>
              (\<forall>k. 0 \<le> sint (mapIndex (JobCounts p') k)) \<and>
              (State jobPtr \<noteq> state \<longrightarrow>
                 sint (mapIndex (JobCounts p') (State jobPtr)) =
                   max 0 (sint (mapIndex (JobCounts p) (State jobPtr)) - 1) \<and>
                 sint (mapIndex (JobCounts p') state) =
                   sint (mapIndex (JobCounts p) state) + 1) \<and>
              sumCounts (JobCounts p') =
                sumCounts (JobCounts p) +
                (if mapIndex (JobCounts p) (State jobPtr) = 0 then 1 else 0))"
proof -
  from UpdateJobState_committed [OF assms] obtain p p' where
    p: "pipelines (Pipeline_Name jobPtr) = Some p"
    and u: "updateJobCounts p (State jobPtr) state = Inr p'"
    and p': "pipelines' = pipelines(Pipeline_Name jobPtr \<mapsto> p')"
    by blast
  note pw = updateJobCounts_pointwise [OF u]
  have ints: "(\<forall>k. 0 \<le> sint (mapIndex (JobCounts p') k)) \<and>
              (State jobPtr \<noteq> state \<longrightarrow>
                 sint (mapIndex (JobCounts p') (State jobPtr)) =
                   max 0 (sint (mapIndex (JobCounts p) (State jobPtr)) - 1) \<and>
                 sint (mapIndex (JobCounts p') state) =
                   sint (mapIndex (JobCounts p) state) + 1) \<and>
              sumCounts (JobCounts p') =
                sumCounts (JobCounts p) +
                (if mapIndex (JobCounts p) (State jobPtr) = 0 then 1 else 0)"
    if nonneg: "\<forall>k. 0 \<le> sint (mapIndex (JobCounts p) k)"
      and room: "sint (mapIndex (JobCounts p) state) < 2 ^ 31 - 1"
  proof (intro conjI allI impI)
    fix k show "0 \<le> sint (mapIndex (JobCounts p') k)"
      using u nonneg room by (rule updateJobCounts_nonneg)
  next
    assume ne: "State jobPtr \<noteq> state"
    have c: "0 \<le> sint (mapIndex (JobCounts p) (State jobPtr))" using nonneg by blast
    show "sint (mapIndex (JobCounts p') (State jobPtr)) =
            max 0 (sint (mapIndex (JobCounts p) (State jobPtr)) - 1)"
    proof (cases "mapIndex (JobCounts p) (State jobPtr) = 0")
      case True
      then show ?thesis using pw ne by simp
    next
      case False
      then have "0 < sint (mapIndex (JobCounts p) (State jobPtr))"
        using c by (simp add: signed_eq_0_iff order_less_le)
      then show ?thesis using pw ne False c by (simp add: sint_dec32)
    qed
  next
    assume ne: "State jobPtr \<noteq> state"
    have "0 \<le> sint (mapIndex (JobCounts p) state)" using nonneg by blast
    then show "sint (mapIndex (JobCounts p') state) = sint (mapIndex (JobCounts p) state) + 1"
      using pw ne room by (simp add: sint_inc32)
  next
    show "sumCounts (JobCounts p') =
            sumCounts (JobCounts p) +
            (if mapIndex (JobCounts p) (State jobPtr) = 0 then 1 else 0)"
      using u nonneg room by (rule updateJobCounts_sum)
  qed
  have "pipelines' (Pipeline_Name jobPtr) = Some p'" using p' by simp
  with p pw ints show ?thesis by blast
qed

text \<open>
  The theorem at a pipeline with two jobs starting and one running, one of the
  starting jobs moving to \<open>JOB_RUNNING\<close>.
\<close>

theorem UpdateJobState_jobCounts_witness:
  "UpdateJobState
     [''p'' \<mapsto> \<lparr>State_p = PIPELINE_RUNNING, Reason_p = '''',
               JobCounts = Some [JOB_STARTING \<mapsto> 2, JOB_RUNNING \<mapsto> 1],
               LastJobState = JOB_RUNNING, SpecCommit = ''c''\<rparr>]
     Map.empty
     \<lparr>Job_ID = ''j'', Pipeline_Name = ''p'', State = JOB_STARTING, Reason = '''',
      Started = None, Finished = None\<rparr>
     JOB_RUNNING ''go'' (Some \<lparr>Seconds = 7, Nanos = 0\<rparr>) =
   (Returned None,
    [''p'' \<mapsto> \<lparr>State_p = PIPELINE_RUNNING, Reason_p = '''',
              JobCounts = Some [JOB_STARTING \<mapsto> 1, JOB_RUNNING \<mapsto> 2],
              LastJobState = JOB_RUNNING, SpecCommit = ''c''\<rparr>],
    [''j'' \<mapsto> \<lparr>Job_ID = ''j'', Pipeline_Name = ''p'', State = JOB_RUNNING, Reason = ''go'',
              Started = None, Finished = None\<rparr>],
    \<lparr>Job_ID = ''j'', Pipeline_Name = ''p'', State = JOB_RUNNING, Reason = ''go'',
     Started = None, Finished = None\<rparr>) \<and>
   (\<forall>k. 0 \<le> sint (mapIndex (Some [JOB_STARTING \<mapsto> 2, JOB_RUNNING \<mapsto> 1]) k)) \<and>
   sint (mapIndex (Some [JOB_STARTING \<mapsto> 2, JOB_RUNNING \<mapsto> 1]) JOB_RUNNING) < 2 ^ 31 - 1 \<and>
   sint (mapIndex (Some [JOB_STARTING \<mapsto> 1, JOB_RUNNING \<mapsto> 2]) JOB_STARTING) = 1 \<and>
   sint (mapIndex (Some [JOB_STARTING \<mapsto> 1, JOB_RUNNING \<mapsto> 2]) JOB_RUNNING) = 2 \<and>
   sumCounts (Some [JOB_STARTING \<mapsto> 1, JOB_RUNNING \<mapsto> 2]) =
     sumCounts (Some [JOB_STARTING \<mapsto> 2, JOB_RUNNING \<mapsto> 1])"
proof -
  let ?p = "\<lparr>State_p = PIPELINE_RUNNING, Reason_p = '''',
               JobCounts = Some [JOB_STARTING \<mapsto> 2, JOB_RUNNING \<mapsto> 1],
               LastJobState = JOB_RUNNING, SpecCommit = ''c''\<rparr>"
  let ?p' = "\<lparr>State_p = PIPELINE_RUNNING, Reason_p = '''',
              JobCounts = Some [JOB_STARTING \<mapsto> 1, JOB_RUNNING \<mapsto> 2],
              LastJobState = JOB_RUNNING, SpecCommit = ''c''\<rparr>"
  let ?j = "\<lparr>Job_ID = ''j'', Pipeline_Name = ''p'', State = JOB_STARTING, Reason = '''',
      Started = None, Finished = None\<rparr>"
  let ?j' = "\<lparr>Job_ID = ''j'', Pipeline_Name = ''p'', State = JOB_RUNNING, Reason = ''go'',
     Started = None, Finished = None\<rparr>"
  have run: "UpdateJobState [''p'' \<mapsto> ?p] Map.empty ?j JOB_RUNNING ''go''
      (Some \<lparr>Seconds = 7, Nanos = 0\<rparr>) = (Returned None, [''p'' \<mapsto> ?p'], [''j'' \<mapsto> ?j'], ?j')"
    by (simp add: UpdateJobState_eval)
  have nonneg: "\<forall>k. 0 \<le> sint (mapIndex (Some [JOB_STARTING \<mapsto> 2, JOB_RUNNING \<mapsto> (1::int32)]) k)"
    by (simp add: mapIndex_def JobState_defs)
  have room: "sint (mapIndex (Some [JOB_STARTING \<mapsto> 2, JOB_RUNNING \<mapsto> (1::int32)]) JOB_RUNNING) < 2 ^ 31 - 1"
    by (simp add: mapIndex_def JobState_defs)
  from UpdateJobState_jobCounts [OF run] nonneg room run show ?thesis
    by (simp add: JobState_defs mapIndex_def)
qed

text \<open>
  C2 as it is stated fails: the sum of the counts is not always unchanged. A job in
  \<open>JOB_STARTING\<close>, a state whose count is 0 in the pipeline record, moves to
  \<open>JOB_RUNNING\<close>: the decrement is skipped, the increment is made, and the sum
  goes from 2 to 3.
\<close>

theorem UpdateJobState_jobCounts_sum_counterexample:
  "UpdateJobState
     [''p'' \<mapsto> \<lparr>State_p = PIPELINE_RUNNING, Reason_p = '''',
               JobCounts = Some [JOB_RUNNING \<mapsto> 2], LastJobState = JOB_RUNNING,
               SpecCommit = ''c''\<rparr>]
     Map.empty
     \<lparr>Job_ID = ''j'', Pipeline_Name = ''p'', State = JOB_STARTING, Reason = '''',
      Started = None, Finished = None\<rparr>
     JOB_RUNNING ''go'' (Some \<lparr>Seconds = 7, Nanos = 0\<rparr>) =
   (Returned None,
    [''p'' \<mapsto> \<lparr>State_p = PIPELINE_RUNNING, Reason_p = '''',
              JobCounts = Some [JOB_RUNNING \<mapsto> 3], LastJobState = JOB_RUNNING,
              SpecCommit = ''c''\<rparr>],
    [''j'' \<mapsto> \<lparr>Job_ID = ''j'', Pipeline_Name = ''p'', State = JOB_RUNNING, Reason = ''go'',
              Started = None, Finished = None\<rparr>],
    \<lparr>Job_ID = ''j'', Pipeline_Name = ''p'', State = JOB_RUNNING, Reason = ''go'',
     Started = None, Finished = None\<rparr>) \<and>
   sumCounts (Some [JOB_RUNNING \<mapsto> 2]) = 2 \<and>
   sumCounts (Some [JOB_RUNNING \<mapsto> 3]) = 3 \<and>
   sumCounts (Some [JOB_RUNNING \<mapsto> 3]) \<noteq> sumCounts (Some [JOB_RUNNING \<mapsto> 2])"
  by (simp add: UpdateJobState_eval sumCounts_def)

subsection \<open>C7: the timestamps of the job\<close>

lemma updateTimestamps_cases:
  assumes "updateTimestamps j st now = Inr (j1, None)"
  shows "(st = JOB_STARTING \<and> now \<noteq> None \<and> j1 = j\<lparr>Started := now\<rparr>) \<or>
         (st \<in> {JOB_SUCCESS, JOB_FAILURE, JOB_KILLED} \<and> now \<noteq> None \<and> j1 = j\<lparr>Finished := now\<rparr>) \<or>
         (st \<in> {JOB_RUNNING, JOB_MERGING} \<and> j1 = j)"
  using assms
  by (auto simp: updateTimestamps_def IsTerminal_def split: if_splits option.splits)

lemma UpdateJobState_committed_job:
  assumes "UpdateJobState ps js j st r now = (Returned None, ps', js', j')"
  shows "\<exists>j1. updateTimestamps j st now = Inr (j1, None) \<and>
           j' = j1\<lparr>State := st, Reason := r\<rparr> \<and> js' = js(Job_ID j \<mapsto> j')"
proof -
  from assms obtain j1 where j1: "updateTimestamps j st now = Inr (j1, None)"
    and j': "j' = j1\<lparr>State := st, Reason := r\<rparr>" and js': "js' = js(Job_ID j' \<mapsto> j')"
    by (auto simp: UpdateJobState_def Get_def Put_def Let_def
        split: if_splits option.splits sum.splits prod.splits)
  have "Job_ID j' = Job_ID j" using updateTimestamps_Job_ID [OF j1] j' by simp
  with j1 j' js' show ?thesis by auto
qed

text \<open>
  C7, as amended. When \<open>UpdateJobState\<close> returns nil, the job record it leaves is
  the one written to the store, and: if the new state is \<open>JOB_STARTING\<close>, the
  started timestamp is the clock reading and the finished timestamp is as before;
  if the new state is terminal (\<open>JOB_SUCCESS\<close>, \<open>JOB_FAILURE\<close>,
  \<open>JOB_KILLED\<close>), the finished timestamp is the clock reading and the started
  timestamp is as before; if the new state is \<open>JOB_RUNNING\<close> or
  \<open>JOB_MERGING\<close>, both timestamps are as before. This holds on every such call,
  whatever the timestamps were before: a timestamp that is set is set again.
\<close>

theorem UpdateJobState_timestamps:
  assumes "UpdateJobState pipelines jobs jobPtr state reason now =
             (Returned None, pipelines', jobs', jobPtr')"
  shows "jobs' (Job_ID jobPtr) = Some jobPtr' \<and>
         (state = JOB_STARTING \<longrightarrow>
            now \<noteq> None \<and> Started jobPtr' = now \<and> Finished jobPtr' = Finished jobPtr) \<and>
         (state \<in> {JOB_SUCCESS, JOB_FAILURE, JOB_KILLED} \<longrightarrow>
            now \<noteq> None \<and> Finished jobPtr' = now \<and> Started jobPtr' = Started jobPtr) \<and>
         (state \<in> {JOB_RUNNING, JOB_MERGING} \<longrightarrow>
            Started jobPtr' = Started jobPtr \<and> Finished jobPtr' = Finished jobPtr)"
proof -
  from UpdateJobState_committed_job [OF assms] obtain j1 where
    j1: "updateTimestamps jobPtr state now = Inr (j1, None)"
    and j': "jobPtr' = j1\<lparr>State := state, Reason := reason\<rparr>"
    and js': "jobs' = jobs(Job_ID jobPtr \<mapsto> jobPtr')"
    by blast
  from updateTimestamps_cases [OF j1] j' js' show ?thesis
    by (auto simp: JobState_defs)
qed

text \<open>
  The theorem at a job that starts, and at a running job that succeeds.
\<close>

theorem UpdateJobState_timestamps_witness:
  "UpdateJobState
     [''p'' \<mapsto> \<lparr>State_p = PIPELINE_RUNNING, Reason_p = '''', JobCounts = None,
               LastJobState = JOB_STARTING, SpecCommit = ''c''\<rparr>]
     Map.empty
     \<lparr>Job_ID = ''j'', Pipeline_Name = ''p'', State = JOB_STARTING, Reason = '''',
      Started = None, Finished = None\<rparr>
     JOB_STARTING '''' (Some \<lparr>Seconds = 7, Nanos = 0\<rparr>) =
   (Returned None,
    [''p'' \<mapsto> \<lparr>State_p = PIPELINE_RUNNING, Reason_p = '''',
              JobCounts = Some [JOB_STARTING \<mapsto> 1], LastJobState = JOB_STARTING,
              SpecCommit = ''c''\<rparr>],
    [''j'' \<mapsto> \<lparr>Job_ID = ''j'', Pipeline_Name = ''p'', State = JOB_STARTING, Reason = '''',
              Started = Some \<lparr>Seconds = 7, Nanos = 0\<rparr>, Finished = None\<rparr>],
    \<lparr>Job_ID = ''j'', Pipeline_Name = ''p'', State = JOB_STARTING, Reason = '''',
     Started = Some \<lparr>Seconds = 7, Nanos = 0\<rparr>, Finished = None\<rparr>) \<and>
   Started \<lparr>Job_ID = ''j'', Pipeline_Name = ''p'', State = JOB_STARTING, Reason = '''',
     Started = Some \<lparr>Seconds = 7, Nanos = 0\<rparr>, Finished = None\<rparr> =
     Some \<lparr>Seconds = 7, Nanos = 0\<rparr> \<and>
   UpdateJobState
     [''p'' \<mapsto> \<lparr>State_p = PIPELINE_RUNNING, Reason_p = '''',
               JobCounts = Some [JOB_RUNNING \<mapsto> 1], LastJobState = JOB_RUNNING,
               SpecCommit = ''c''\<rparr>]
     Map.empty
     \<lparr>Job_ID = ''j'', Pipeline_Name = ''p'', State = JOB_RUNNING, Reason = '''',
      Started = Some \<lparr>Seconds = 7, Nanos = 0\<rparr>, Finished = None\<rparr>
     JOB_SUCCESS ''done'' (Some \<lparr>Seconds = 9, Nanos = 0\<rparr>) =
   (Returned None,
    [''p'' \<mapsto> \<lparr>State_p = PIPELINE_RUNNING, Reason_p = '''',
              JobCounts = Some [JOB_RUNNING \<mapsto> 0, JOB_SUCCESS \<mapsto> 1],
              LastJobState = JOB_SUCCESS, SpecCommit = ''c''\<rparr>],
    [''j'' \<mapsto> \<lparr>Job_ID = ''j'', Pipeline_Name = ''p'', State = JOB_SUCCESS, Reason = ''done'',
              Started = Some \<lparr>Seconds = 7, Nanos = 0\<rparr>,
              Finished = Some \<lparr>Seconds = 9, Nanos = 0\<rparr>\<rparr>],
    \<lparr>Job_ID = ''j'', Pipeline_Name = ''p'', State = JOB_SUCCESS, Reason = ''done'',
     Started = Some \<lparr>Seconds = 7, Nanos = 0\<rparr>,
     Finished = Some \<lparr>Seconds = 9, Nanos = 0\<rparr>\<rparr>) \<and>
   Finished \<lparr>Job_ID = ''j'', Pipeline_Name = ''p'', State = JOB_SUCCESS, Reason = ''done'',
     Started = Some \<lparr>Seconds = 7, Nanos = 0\<rparr>,
     Finished = Some \<lparr>Seconds = 9, Nanos = 0\<rparr>\<rparr> = Some \<lparr>Seconds = 9, Nanos = 0\<rparr>"
proof -
  let ?t7 = "\<lparr>Seconds = 7, Nanos = 0\<rparr>" and ?t9 = "\<lparr>Seconds = 9, Nanos = 0\<rparr>"
  have run1: "UpdateJobState
     [''p'' \<mapsto> \<lparr>State_p = PIPELINE_RUNNING, Reason_p = '''', JobCounts = None,
               LastJobState = JOB_STARTING, SpecCommit = ''c''\<rparr>]
     Map.empty
     \<lparr>Job_ID = ''j'', Pipeline_Name = ''p'', State = JOB_STARTING, Reason = '''',
      Started = None, Finished = None\<rparr>
     JOB_STARTING '''' (Some ?t7) =
   (Returned None,
    [''p'' \<mapsto> \<lparr>State_p = PIPELINE_RUNNING, Reason_p = '''',
              JobCounts = Some [JOB_STARTING \<mapsto> 1], LastJobState = JOB_STARTING,
              SpecCommit = ''c''\<rparr>],
    [''j'' \<mapsto> \<lparr>Job_ID = ''j'', Pipeline_Name = ''p'', State = JOB_STARTING, Reason = '''',
              Started = Some ?t7, Finished = None\<rparr>],
    \<lparr>Job_ID = ''j'', Pipeline_Name = ''p'', State = JOB_STARTING, Reason = '''',
     Started = Some ?t7, Finished = None\<rparr>)"
    by (simp add: UpdateJobState_eval)
  have run2: "UpdateJobState
     [''p'' \<mapsto> \<lparr>State_p = PIPELINE_RUNNING, Reason_p = '''',
               JobCounts = Some [JOB_RUNNING \<mapsto> 1], LastJobState = JOB_RUNNING,
               SpecCommit = ''c''\<rparr>]
     Map.empty
     \<lparr>Job_ID = ''j'', Pipeline_Name = ''p'', State = JOB_RUNNING, Reason = '''',
      Started = Some ?t7, Finished = None\<rparr>
     JOB_SUCCESS ''done'' (Some ?t9) =
   (Returned None,
    [''p'' \<mapsto> \<lparr>State_p = PIPELINE_RUNNING, Reason_p = '''',
              JobCounts = Some [JOB_RUNNING \<mapsto> 0, JOB_SUCCESS \<mapsto> 1],
              LastJobState = JOB_SUCCESS, SpecCommit = ''c''\<rparr>],
    [''j'' \<mapsto> \<lparr>Job_ID = ''j'', Pipeline_Name = ''p'', State = JOB_SUCCESS, Reason = ''done'',
              Started = Some ?t7, Finished = Some ?t9\<rparr>],
    \<lparr>Job_ID = ''j'', Pipeline_Name = ''p'', State = JOB_SUCCESS, Reason = ''done'',
     Started = Some ?t7, Finished = Some ?t9\<rparr>)"
    by (simp add: UpdateJobState_eval)
  from UpdateJobState_timestamps [OF run1] UpdateJobState_timestamps [OF run2] run1 run2
  show ?thesis by simp
qed

text \<open>
  C7 as it is stated fails: the finished timestamp is not set only once, on the
  first entry into a terminal state. A job that finished in \<open>JOB_SUCCESS\<close> at
  time 9 and is moved to \<open>JOB_KILLED\<close> at time 20 has its finished timestamp
  set to 20.
\<close>

theorem UpdateJobState_finished_twice_counterexample:
  "UpdateJobState
     [''p'' \<mapsto> \<lparr>State_p = PIPELINE_RUNNING, Reason_p = '''',
               JobCounts = Some [JOB_SUCCESS \<mapsto> 1], LastJobState = JOB_SUCCESS,
               SpecCommit = ''c''\<rparr>]
     Map.empty
     \<lparr>Job_ID = ''j'', Pipeline_Name = ''p'', State = JOB_SUCCESS, Reason = ''done'',
      Started = Some \<lparr>Seconds = 7, Nanos = 0\<rparr>,
      Finished = Some \<lparr>Seconds = 9, Nanos = 0\<rparr>\<rparr>
     JOB_KILLED ''late kill'' (Some \<lparr>Seconds = 20, Nanos = 0\<rparr>) =
   (Returned None,
    [''p'' \<mapsto> \<lparr>State_p = PIPELINE_RUNNING, Reason_p = '''',
              JobCounts = Some [JOB_SUCCESS \<mapsto> 0, JOB_KILLED \<mapsto> 1],
              LastJobState = JOB_KILLED, SpecCommit = ''c''\<rparr>],
    [''j'' \<mapsto> \<lparr>Job_ID = ''j'', Pipeline_Name = ''p'', State = JOB_KILLED,
              Reason = ''late kill'', Started = Some \<lparr>Seconds = 7, Nanos = 0\<rparr>,
              Finished = Some \<lparr>Seconds = 20, Nanos = 0\<rparr>\<rparr>],
    \<lparr>Job_ID = ''j'', Pipeline_Name = ''p'', State = JOB_KILLED, Reason = ''late kill'',
     Started = Some \<lparr>Seconds = 7, Nanos = 0\<rparr>,
     Finished = Some \<lparr>Seconds = 20, Nanos = 0\<rparr>\<rparr>) \<and>
   Some \<lparr>Seconds = 20, Nanos = 0\<rparr> \<noteq> Some \<lparr>Seconds = 9, Nanos = (0::int32)\<rparr>"
  by (simp add: UpdateJobState_eval)

subsection \<open>C9: a new state outside the enumeration\<close>

lemma updateTimestamps_unrecognized:
  assumes "state \<notin> {JOB_STARTING, JOB_RUNNING, JOB_MERGING, JOB_SUCCESS, JOB_FAILURE, JOB_KILLED}"
  shows "updateTimestamps j state now = Inl (UnrecognizedJobState state)"
  using assms by (simp add: updateTimestamps_def IsTerminal_def)

text \<open>
  C9. For a new state that is none of the six recognized values (so it is not
  \<open>JOB_STARTING\<close> either), \<open>IsTerminal\<close> panics, and a call of
  \<open>UpdateJobState\<close> that reaches the check (the job is not in \<open>JOB_FAILURE\<close>
  and the pipeline record is there) panics with it: it does not return, with an
  error or without.
\<close>

theorem UpdateJobState_unrecognized_state_panics:
  assumes "state \<notin> {JOB_STARTING, JOB_RUNNING, JOB_MERGING, JOB_SUCCESS, JOB_FAILURE, JOB_KILLED}"
  shows "IsTerminal state = Inl (UnrecognizedJobState state) \<and>
         (State jobPtr \<noteq> JOB_FAILURE \<longrightarrow> pipelines (Pipeline_Name jobPtr) = Some pipelinePtr \<longrightarrow>
            fst (UpdateJobState pipelines jobs jobPtr state reason now) =
              Panicked (UnrecognizedJobState state))"
proof (intro conjI impI)
  show "IsTerminal state = Inl (UnrecognizedJobState state)"
    using assms by (simp add: IsTerminal_def)
next
  assume a: "State jobPtr \<noteq> JOB_FAILURE" "pipelines (Pipeline_Name jobPtr) = Some pipelinePtr"
  obtain p' where p': "updateJobCounts pipelinePtr (State jobPtr) state = Inr p'"
    using updateJobCounts_no_panic by blast
  show "fst (UpdateJobState pipelines jobs jobPtr state reason now) =
          Panicked (UnrecognizedJobState state)"
    using a p' updateTimestamps_unrecognized [OF assms]
    by (simp add: UpdateJobState_def Get_def Put_def)
qed

text \<open>The theorem at the new state 6, for a running job.\<close>

theorem UpdateJobState_unrecognized_state_panics_witness:
  "(6 :: JobState) \<notin>
     {JOB_STARTING, JOB_RUNNING, JOB_MERGING, JOB_SUCCESS, JOB_FAILURE, JOB_KILLED} \<and>
   IsTerminal 6 = Inl (UnrecognizedJobState 6) \<and>
   State \<lparr>Job_ID = ''j'', Pipeline_Name = ''p'', State = JOB_RUNNING, Reason = '''',
          Started = None, Finished = None\<rparr> \<noteq> JOB_FAILURE \<and>
   fst (UpdateJobState
     [''p'' \<mapsto> \<lparr>State_p = PIPELINE_RUNNING, Reason_p = '''',
               JobCounts = Some [JOB_RUNNING \<mapsto> 1], LastJobState = JOB_RUNNING,
               SpecCommit = ''c''\<rparr>]
     Map.empty
     \<lparr>Job_ID = ''j'', Pipeline_Name = ''p'', State = JOB_RUNNING, Reason = '''',
      Started = None, Finished = None\<rparr>
     6 ''?'' (Some \<lparr>Seconds = 7, Nanos = 0\<rparr>)) = Panicked (UnrecognizedJobState 6)"
proof -
  have out: "(6 :: JobState) \<notin>
     {JOB_STARTING, JOB_RUNNING, JOB_MERGING, JOB_SUCCESS, JOB_FAILURE, JOB_KILLED}"
    by (simp add: JobState_defs)
  from UpdateJobState_unrecognized_state_panics [OF out,
      of "\<lparr>Job_ID = ''j'', Pipeline_Name = ''p'', State = JOB_RUNNING, Reason = '''',
          Started = None, Finished = None\<rparr>"
      "[''p'' \<mapsto> \<lparr>State_p = PIPELINE_RUNNING, Reason_p = '''',
               JobCounts = Some [JOB_RUNNING \<mapsto> 1], LastJobState = JOB_RUNNING,
               SpecCommit = ''c''\<rparr>]"
      "\<lparr>State_p = PIPELINE_RUNNING, Reason_p = '''',
               JobCounts = Some [JOB_RUNNING \<mapsto> 1], LastJobState = JOB_RUNNING,
               SpecCommit = ''c''\<rparr>" Map.empty "''?''" "Some \<lparr>Seconds = 7, Nanos = 0\<rparr>"] out
  show ?thesis by (simp add: JobState_defs)
qed

subsection \<open>C10: a pipeline record with a nil map of counts\<close>

lemma updateJobCounts_nil:
  assumes "JobCounts p = None"
  shows "updateJobCounts p old state =
           Inr (p\<lparr>JobCounts := Some [state \<mapsto> 1], LastJobState := state\<rparr>)"
  using assms by (simp add: updateJobCounts_def mapIndex_def mapAssign_def)

lemma updateJobCounts_not_Inl: "updateJobCounts p old st \<noteq> Inl pn"
  using updateJobCounts_no_panic [of p old st] by auto

lemma UpdateJobState_panic_cases:
  "fst (UpdateJobState ps js j st r now) = Panicked pn \<Longrightarrow> pn = UnrecognizedJobState st"
  by (auto simp: UpdateJobState_def Get_def Put_def Let_def updateTimestamps_def IsTerminal_def
      updateJobCounts_not_Inl split: if_splits option.splits sum.splits prod.splits)

text \<open>
  C10. No call of \<open>UpdateJobState\<close> panics on an assignment to a nil map. When
  the job is not in \<open>JOB_FAILURE\<close> and the pipeline record has a nil
  \<open>JobCounts\<close>, every count reads 0 and the record written back has the map with
  the single entry 1 for the new state; the call returns nil when the new state is
  a recognized one and the clock reading converts.
\<close>

theorem UpdateJobState_nil_jobCounts:
  "fst (UpdateJobState pipelines jobs jobPtr state reason now) \<noteq> Panicked NilMapAssignment \<and>
   (State jobPtr \<noteq> JOB_FAILURE \<longrightarrow> pipelines (Pipeline_Name jobPtr) = Some pipelinePtr \<longrightarrow>
    JobCounts pipelinePtr = None \<longrightarrow>
      fst (snd (UpdateJobState pipelines jobs jobPtr state reason now)) (Pipeline_Name jobPtr) =
        Some (pipelinePtr\<lparr>JobCounts := Some [state \<mapsto> 1], LastJobState := state\<rparr>) \<and>
      (\<forall>k. mapIndex (JobCounts pipelinePtr) k = 0) \<and>
      (IsTerminal state = Inr b \<longrightarrow> now = Some t \<longrightarrow>
         fst (UpdateJobState pipelines jobs jobPtr state reason now) = Returned None))"
proof (intro conjI impI allI)
  show "fst (UpdateJobState pipelines jobs jobPtr state reason now) \<noteq> Panicked NilMapAssignment"
    using UpdateJobState_panic_cases [of pipelines jobs jobPtr state reason now NilMapAssignment]
    by auto
next
  assume a: "State jobPtr \<noteq> JOB_FAILURE" "pipelines (Pipeline_Name jobPtr) = Some pipelinePtr"
    "JobCounts pipelinePtr = None"
  note u = updateJobCounts_nil [OF a(3), of "State jobPtr" state]
  show "fst (snd (UpdateJobState pipelines jobs jobPtr state reason now)) (Pipeline_Name jobPtr) =
        Some (pipelinePtr\<lparr>JobCounts := Some [state \<mapsto> 1], LastJobState := state\<rparr>)"
    using a u
    by (auto simp: UpdateJobState_def Get_def Put_def Let_def
        split: sum.splits prod.splits option.splits)
  fix k show "mapIndex (JobCounts pipelinePtr) k = 0"
    using a(3) by (simp add: mapIndex_def)
  assume b: "IsTerminal state = Inr b" "now = Some t"
  obtain j1 where j1: "updateTimestamps jobPtr state now = Inr (j1, None)"
    using updateTimestamps_ok [OF b(1)] b(2) by blast
  show "fst (UpdateJobState pipelines jobs jobPtr state reason now) = Returned None"
    using UpdateJobState_proceeds [of jobPtr pipelines pipelinePtr state _ now j1 jobs reason]
      a(1) a(2) u j1 by simp
qed

text \<open>The theorem at a starting job of a pipeline with a nil map, moved to running.\<close>

theorem UpdateJobState_nil_jobCounts_witness:
  "State \<lparr>Job_ID = ''j'', Pipeline_Name = ''p'', State = JOB_STARTING, Reason = '''',
          Started = None, Finished = None\<rparr> \<noteq> JOB_FAILURE \<and>
   JobCounts \<lparr>State_p = PIPELINE_STARTING, Reason_p = '''', JobCounts = None,
              LastJobState = JOB_STARTING, SpecCommit = ''c''\<rparr> = None \<and>
   IsTerminal JOB_RUNNING = Inr False \<and>
   UpdateJobState
     [''p'' \<mapsto> \<lparr>State_p = PIPELINE_STARTING, Reason_p = '''', JobCounts = None,
               LastJobState = JOB_STARTING, SpecCommit = ''c''\<rparr>]
     Map.empty
     \<lparr>Job_ID = ''j'', Pipeline_Name = ''p'', State = JOB_STARTING, Reason = '''',
      Started = None, Finished = None\<rparr>
     JOB_RUNNING ''go'' (Some \<lparr>Seconds = 7, Nanos = 0\<rparr>) =
   (Returned None,
    [''p'' \<mapsto> \<lparr>State_p = PIPELINE_STARTING, Reason_p = '''',
              JobCounts = Some [JOB_RUNNING \<mapsto> 1], LastJobState = JOB_RUNNING,
              SpecCommit = ''c''\<rparr>],
    [''j'' \<mapsto> \<lparr>Job_ID = ''j'', Pipeline_Name = ''p'', State = JOB_RUNNING, Reason = ''go'',
              Started = None, Finished = None\<rparr>],
    \<lparr>Job_ID = ''j'', Pipeline_Name = ''p'', State = JOB_RUNNING, Reason = ''go'',
     Started = None, Finished = None\<rparr>)"
  using UpdateJobState_nil_jobCounts
    [of "[''p'' \<mapsto> \<lparr>State_p = PIPELINE_STARTING, Reason_p = '''', JobCounts = None,
               LastJobState = JOB_STARTING, SpecCommit = ''c''\<rparr>]" Map.empty
      "\<lparr>Job_ID = ''j'', Pipeline_Name = ''p'', State = JOB_STARTING, Reason = '''',
      Started = None, Finished = None\<rparr>" JOB_RUNNING "''go''" "Some \<lparr>Seconds = 7, Nanos = 0\<rparr>"
      "\<lparr>State_p = PIPELINE_STARTING, Reason_p = '''', JobCounts = None,
               LastJobState = JOB_STARTING, SpecCommit = ''c''\<rparr>" False
      "\<lparr>Seconds = 7, Nanos = 0\<rparr>"]
  by (simp add: UpdateJobState_eval)

subsection \<open>C8: FailPipeline\<close>

lemma FailPipeline_absent:
  "pipelinesC store name = None \<Longrightarrow>
   FailPipeline store name reason = (Some (ErrNotFound name), store)"
  by (simp add: FailPipeline_def NewSTM_def Get_def)

lemma FailPipeline_present:
  "pipelinesC store name = Some p \<Longrightarrow>
   FailPipeline store name reason =
     (None, store\<lparr>pipelinesC :=
        (pipelinesC store)(name \<mapsto> p\<lparr>State_p := PIPELINE_FAILURE, Reason_p := reason\<rparr>)\<rparr>)"
  by (simp add: FailPipeline_def NewSTM_def Get_def Put_def)

text \<open>
  C8. \<open>FailPipeline\<close> returns the \<open>ErrNotFound\<close> error of the store, and leaves
  the store as it was, when the pipeline record is absent. Otherwise it returns nil
  and the store differs only in that record, which differs only in its state, now
  \<open>PIPELINE_FAILURE\<close>, and its reason: its job counts are the same and the
  collection of jobs is the same. A second call on the resulting store returns nil
  as well and leaves the record in \<open>PIPELINE_FAILURE\<close> with the reason of the
  second call, everything else being as in the store before the first call.
\<close>

theorem FailPipeline_sets_state_and_reason:
  "(pipelinesC store name = None \<longrightarrow>
      FailPipeline store name reason = (Some (ErrNotFound name), store)) \<and>
   (pipelinesC store name = Some p \<longrightarrow>
      FailPipeline store name reason =
        (None, store\<lparr>pipelinesC :=
           (pipelinesC store)(name \<mapsto> p\<lparr>State_p := PIPELINE_FAILURE, Reason_p := reason\<rparr>)\<rparr>) \<and>
      jobsC (snd (FailPipeline store name reason)) = jobsC store \<and>
      map_option JobCounts (pipelinesC (snd (FailPipeline store name reason)) name) =
        Some (JobCounts p) \<and>
      (\<forall>other. other \<noteq> name \<longrightarrow>
         pipelinesC (snd (FailPipeline store name reason)) other = pipelinesC store other) \<and>
      FailPipeline (snd (FailPipeline store name reason)) name reason2 =
        (None, store\<lparr>pipelinesC :=
           (pipelinesC store)(name \<mapsto> p\<lparr>State_p := PIPELINE_FAILURE, Reason_p := reason2\<rparr>)\<rparr>))"
proof (intro conjI impI allI)
  assume "pipelinesC store name = None"
  then show "FailPipeline store name reason = (Some (ErrNotFound name), store)"
    by (rule FailPipeline_absent)
next
  assume p: "pipelinesC store name = Some p"
  let ?p1 = "p\<lparr>State_p := PIPELINE_FAILURE, Reason_p := reason\<rparr>"
  let ?store1 = "store\<lparr>pipelinesC := (pipelinesC store)(name \<mapsto> ?p1)\<rparr>"
  show first: "FailPipeline store name reason = (None, ?store1)"
    using p by (rule FailPipeline_present)
  show "jobsC (snd (FailPipeline store name reason)) = jobsC store"
    by (simp add: first)
  show "map_option JobCounts (pipelinesC (snd (FailPipeline store name reason)) name) =
        Some (JobCounts p)"
    by (simp add: first)
  show "pipelinesC (snd (FailPipeline store name reason)) other = pipelinesC store other"
    if "other \<noteq> name" for other
    using that by (simp add: first)
  have "pipelinesC ?store1 name = Some ?p1" by simp
  then have "FailPipeline ?store1 name reason2 =
      (None, ?store1\<lparr>pipelinesC :=
         (pipelinesC ?store1)(name \<mapsto> ?p1\<lparr>State_p := PIPELINE_FAILURE, Reason_p := reason2\<rparr>)\<rparr>)"
    by (rule FailPipeline_present)
  then show "FailPipeline (snd (FailPipeline store name reason)) name reason2 =
        (None, store\<lparr>pipelinesC :=
           (pipelinesC store)(name \<mapsto> p\<lparr>State_p := PIPELINE_FAILURE, Reason_p := reason2\<rparr>)\<rparr>)"
    by (simp add: first)
qed

text \<open>
  The theorem at a store without the pipeline, and at a store with a running
  pipeline that is failed twice.
\<close>

theorem FailPipeline_sets_state_and_reason_witness:
  "pipelinesC \<lparr>pipelinesC = Map.empty, jobsC = Map.empty\<rparr> ''p'' = None \<and>
   FailPipeline \<lparr>pipelinesC = Map.empty, jobsC = Map.empty\<rparr> ''p'' ''oom'' =
     (Some (ErrNotFound ''p''), \<lparr>pipelinesC = Map.empty, jobsC = Map.empty\<rparr>) \<and>
   FailPipeline
     \<lparr>pipelinesC = [''p'' \<mapsto> \<lparr>State_p = PIPELINE_RUNNING, Reason_p = '''',
                                JobCounts = Some [JOB_RUNNING \<mapsto> 1],
                                LastJobState = JOB_RUNNING, SpecCommit = ''c''\<rparr>],
      jobsC = Map.empty\<rparr> ''p'' ''oom'' =
     (None,
      \<lparr>pipelinesC = [''p'' \<mapsto> \<lparr>State_p = PIPELINE_FAILURE, Reason_p = ''oom'',
                                JobCounts = Some [JOB_RUNNING \<mapsto> 1],
                                LastJobState = JOB_RUNNING, SpecCommit = ''c''\<rparr>],
       jobsC = Map.empty\<rparr>) \<and>
   FailPipeline
     \<lparr>pipelinesC = [''p'' \<mapsto> \<lparr>State_p = PIPELINE_FAILURE, Reason_p = ''oom'',
                                JobCounts = Some [JOB_RUNNING \<mapsto> 1],
                                LastJobState = JOB_RUNNING, SpecCommit = ''c''\<rparr>],
      jobsC = Map.empty\<rparr> ''p'' ''again'' =
     (None,
      \<lparr>pipelinesC = [''p'' \<mapsto> \<lparr>State_p = PIPELINE_FAILURE, Reason_p = ''again'',
                                JobCounts = Some [JOB_RUNNING \<mapsto> 1],
                                LastJobState = JOB_RUNNING, SpecCommit = ''c''\<rparr>],
       jobsC = Map.empty\<rparr>)"
proof -
  let ?p = "\<lparr>State_p = PIPELINE_RUNNING, Reason_p = '''',
             JobCounts = Some [JOB_RUNNING \<mapsto> 1],
             LastJobState = JOB_RUNNING, SpecCommit = ''c''\<rparr>"
  let ?emp = "\<lparr>pipelinesC = Map.empty, jobsC = Map.empty\<rparr>"
  let ?s = "\<lparr>pipelinesC = [''p'' \<mapsto> ?p], jobsC = Map.empty\<rparr>"
  have absent: "pipelinesC ?emp ''p'' = None" by simp
  have present: "pipelinesC ?s ''p'' = Some ?p" by simp
  note a = FailPipeline_sets_state_and_reason
    [of ?emp "''p''" "''oom''", THEN conjunct1, THEN mp, OF absent]
  note t = FailPipeline_sets_state_and_reason
    [of ?s "''p''" "''oom''" ?p "''again''", THEN conjunct2, THEN mp, OF present]
  note b = t [THEN conjunct1]
  note c = t [THEN conjunct2, THEN conjunct2, THEN conjunct2, THEN conjunct2]
  show ?thesis using absent a b c [unfolded b] by simp
qed

subsection \<open>Helper lemmas on getResourceListFromSpec\<close>

lemmas ResourceName_defs = ResourceCPU_def ResourceMemory_def ResourceEphemeralStorage_def

lemma ResourceName_distinct:
  "ResourceCPU \<noteq> ResourceMemory" "ResourceMemory \<noteq> ResourceCPU"
  "ResourceCPU \<noteq> ResourceEphemeralStorage" "ResourceEphemeralStorage \<noteq> ResourceCPU"
  "ResourceMemory \<noteq> ResourceEphemeralStorage" "ResourceEphemeralStorage \<noteq> ResourceMemory"
  by (simp_all add: ResourceName_defs)

declare decimal.simps [simp del]

text \<open>The result of the function: the fixed entries, and the entry of the GPU over them.\<close>

lemma getResourceListFromSpec_result:
  "getResourceListFromSpec P F r cacheSize =
     ((case gpuEntry P r of
         None \<Rightarrow> fixedEntries P F r cacheSize
       | Some (t, q) \<Rightarrow> (fixedEntries P F r cacheSize)(t \<mapsto> q)), None)"
proof -
  define r1 where "r1 = (if snd (P (F (Cpu r))) \<noteq> None then Map.empty
                         else [ResourceCPU \<mapsto> fst (P (F (Cpu r)))])"
  define r2 where "r2 = (if snd (P (Memory r)) \<noteq> None then r1
                         else r1(ResourceMemory \<mapsto> fst (P (Memory r))))"
  define r3 where "r3 = (if Disk r \<noteq> []
                         then (if snd (P (Disk r)) \<noteq> None then r2
                               else r2(ResourceEphemeralStorage \<mapsto> fst (P (Disk r))))
                         else r2)"
  define r4 where "r4 = (if snd (P cacheSize) \<noteq> None then r3
                         else if fst (P cacheSize) > fst (P (Memory r))
                           then r3(ResourceMemory \<mapsto> fst (P cacheSize))
                         else r3)"
  have unf: "getResourceListFromSpec P F r cacheSize =
      ((case gpuEntry P r of None \<Rightarrow> r4 | Some (t, q) \<Rightarrow> r4(t \<mapsto> q)), None)"
    unfolding getResourceListFromSpec_def gpuEntry_def r4_def r3_def r2_def r1_def
      Let_def split_beta
    by (cases "Gpu r") simp_all
  have r1: "r1 k = (if k = ResourceCPU \<and> snd (P (F (Cpu r))) = None
                    then Some (fst (P (F (Cpu r)))) else None)" for k
    by (simp add: r1_def)
  have r2: "r2 k = (if k = ResourceMemory \<and> snd (P (Memory r)) = None
                    then Some (fst (P (Memory r))) else r1 k)" for k
    by (simp add: r2_def)
  have r3: "r3 k = (if k = ResourceEphemeralStorage \<and> Disk r \<noteq> [] \<and> snd (P (Disk r)) = None
                    then Some (fst (P (Disk r))) else r2 k)" for k
    by (simp add: r3_def)
  have r4: "r4 k = (if k = ResourceMemory \<and> snd (P cacheSize) = None \<and>
                       fst (P cacheSize) > fst (P (Memory r))
                    then Some (fst (P cacheSize)) else r3 k)" for k
    by (simp add: r4_def)
  have "r4 k = fixedEntries P F r cacheSize k" for k
    unfolding r4 r3 r2 r1 fixedEntries_def
    using ResourceName_distinct by auto
  then have "r4 = fixedEntries P F r cacheSize" by (rule ext)
  then show ?thesis unfolding unf by (rule arg_cong)
qed

lemma getResourceListFromSpec_lookup:
  "fst (getResourceListFromSpec P F r cacheSize) k =
     (case gpuEntry P r of
        None \<Rightarrow> fixedEntries P F r cacheSize k
      | Some (t, q) \<Rightarrow> if k = t then Some q else fixedEntries P F r cacheSize k)"
  by (simp add: getResourceListFromSpec_result split: option.splits)

lemma lookup_unless_gpu:
  assumes "\<forall>q. gpuEntry P r \<noteq> Some (k, q)"
  shows "fst (getResourceListFromSpec P F r cacheSize) k = fixedEntries P F r cacheSize k"
proof (cases "gpuEntry P r")
  case None
  then show ?thesis by (simp add: getResourceListFromSpec_lookup)
next
  case (Some e)
  obtain t q where e: "e = (t, q)" by (cases e)
  with Some assms have "t \<noteq> k" by auto
  with Some e show ?thesis by (simp add: getResourceListFromSpec_lookup)
qed

lemma lookup_gpu:
  "gpuEntry P r = Some (k, q) \<Longrightarrow> fst (getResourceListFromSpec P F r cacheSize) k = Some q"
  by (simp add: getResourceListFromSpec_lookup)

lemma fixedEntries_CPU:
  "fixedEntries P F r cacheSize ResourceCPU =
     (if snd (P (F (Cpu r))) = None then Some (fst (P (F (Cpu r)))) else None)"
  by (simp add: fixedEntries_def ResourceName_distinct)

lemma fixedEntries_Disk:
  "fixedEntries P F r cacheSize ResourceEphemeralStorage =
     (if Disk r \<noteq> [] \<and> snd (P (Disk r)) = None then Some (fst (P (Disk r))) else None)"
  by (simp add: fixedEntries_def ResourceName_distinct)

lemma fixedEntries_Memory:
  "fixedEntries P F r cacheSize ResourceMemory =
     (if snd (P cacheSize) = None \<and> fst (P cacheSize) > fst (P (Memory r))
      then Some (fst (P cacheSize))
      else if snd (P (Memory r)) = None then Some (fst (P (Memory r))) else None)"
  by (simp add: fixedEntries_def)

lemma gpuEntry_no_Gpu: "gpuEntry P (r\<lparr>Gpu := None\<rparr>) = None"
  by (simp add: gpuEntry_def)

lemma fixedEntries_no_Gpu:
  "fixedEntries P F (r\<lparr>Gpu := None\<rparr>) cacheSize = fixedEntries P F r cacheSize"
  by (rule ext) (simp add: fixedEntries_def)

lemma exampleSprintf_f_2: "exampleSprintf_f 2 = ''2.000000''"
  by code_simp

lemma Sprintf_d_2: "Sprintf_d 2 = ''2''"
  by code_simp

lemmas example_eval =
  exampleParseQuantity_def exampleSprintf_f_2 Sprintf_d_2 ResourceName_defs Let_def

subsection \<open>C4: a field that fails to parse\<close>

text \<open>
  C4, as amended. \<open>getResourceListFromSpec\<close> never returns an error. When the cpu
  string fails to parse, the result has no cpu entry; when the disk string fails to
  parse, it has no disk entry; when the memory string fails to parse, it has no
  memory entry unless the cache size parses to a quantity greater than the quantity
  the parser returned with its error for the memory string, in which case the memory
  entry is the cache quantity. Each of the three holds when the GPU section does not
  write an entry under that key. When the GPU section writes no entry (there is no
  GPU, or its count fails to parse), the result is the one for the same
  specification without a GPU.
\<close>

theorem getResourceListFromSpec_parse_failure:
  "snd (getResourceListFromSpec P F r cacheSize) = None \<and>
   (snd (P (F (Cpu r))) \<noteq> None \<longrightarrow> (\<forall>q. gpuEntry P r \<noteq> Some (ResourceCPU, q)) \<longrightarrow>
      fst (getResourceListFromSpec P F r cacheSize) ResourceCPU = None) \<and>
   (snd (P (Disk r)) \<noteq> None \<longrightarrow> (\<forall>q. gpuEntry P r \<noteq> Some (ResourceEphemeralStorage, q)) \<longrightarrow>
      fst (getResourceListFromSpec P F r cacheSize) ResourceEphemeralStorage = None) \<and>
   (snd (P (Memory r)) \<noteq> None \<longrightarrow> (\<forall>q. gpuEntry P r \<noteq> Some (ResourceMemory, q)) \<longrightarrow>
      fst (getResourceListFromSpec P F r cacheSize) ResourceMemory =
        (if snd (P cacheSize) = None \<and> fst (P cacheSize) > fst (P (Memory r))
         then Some (fst (P cacheSize)) else None)) \<and>
   (gpuEntry P r = None \<longrightarrow>
      getResourceListFromSpec P F r cacheSize =
        getResourceListFromSpec P F (r\<lparr>Gpu := None\<rparr>) cacheSize)"
proof (intro conjI impI)
  show "snd (getResourceListFromSpec P F r cacheSize) = None"
    by (simp add: getResourceListFromSpec_result)
next
  assume "snd (P (F (Cpu r))) \<noteq> None" "\<forall>q. gpuEntry P r \<noteq> Some (ResourceCPU, q)"
  then show "fst (getResourceListFromSpec P F r cacheSize) ResourceCPU = None"
    by (simp add: lookup_unless_gpu fixedEntries_CPU)
next
  assume "snd (P (Disk r)) \<noteq> None" "\<forall>q. gpuEntry P r \<noteq> Some (ResourceEphemeralStorage, q)"
  then show "fst (getResourceListFromSpec P F r cacheSize) ResourceEphemeralStorage = None"
    by (simp add: lookup_unless_gpu fixedEntries_Disk)
next
  assume "snd (P (Memory r)) \<noteq> None" "\<forall>q. gpuEntry P r \<noteq> Some (ResourceMemory, q)"
  then show "fst (getResourceListFromSpec P F r cacheSize) ResourceMemory =
        (if snd (P cacheSize) = None \<and> fst (P cacheSize) > fst (P (Memory r))
         then Some (fst (P cacheSize)) else None)"
    by (simp add: lookup_unless_gpu fixedEntries_Memory)
next
  assume "gpuEntry P r = None"
  then show "getResourceListFromSpec P F r cacheSize =
        getResourceListFromSpec P F (r\<lparr>Gpu := None\<rparr>) cacheSize"
    by (simp add: getResourceListFromSpec_result gpuEntry_no_Gpu fixedEntries_no_Gpu)
qed

text \<open>
  The theorem at a specification whose memory string and cache size both fail to
  parse: the result has the cpu entry only.
\<close>

theorem getResourceListFromSpec_parse_failure_witness:
  "snd (exampleParseQuantity ''abc'') \<noteq> None \<and>
   gpuEntry exampleParseQuantity \<lparr>Cpu = 2::nat, Memory = ''abc'', Gpu = None, Disk = ''''\<rparr> = None \<and>
   snd (getResourceListFromSpec exampleParseQuantity exampleSprintf_f
          \<lparr>Cpu = 2, Memory = ''abc'', Gpu = None, Disk = ''''\<rparr> ''xyz'') = None \<and>
   fst (getResourceListFromSpec exampleParseQuantity exampleSprintf_f
          \<lparr>Cpu = 2, Memory = ''abc'', Gpu = None, Disk = ''''\<rparr> ''xyz'') ResourceMemory = None"
  using getResourceListFromSpec_parse_failure
    [of exampleParseQuantity exampleSprintf_f
      "\<lparr>Cpu = 2, Memory = ''abc'', Gpu = None, Disk = ''''\<rparr>" "''xyz''"]
  by (simp add: exampleParseQuantity_def gpuEntry_def)

text \<open>
  C4 as it is stated fails for the memory field: its string fails to parse and the
  result has a memory entry all the same, the cache size.
\<close>

theorem getResourceListFromSpec_memory_counterexample:
  "snd (exampleParseQuantity ''abc'') \<noteq> None \<and>
   getResourceListFromSpec exampleParseQuantity exampleSprintf_f
     \<lparr>Cpu = 2, Memory = ''abc'', Gpu = None, Disk = ''''\<rparr> ''64'' =
     ([ResourceCPU \<mapsto> 2, ResourceMemory \<mapsto> 64], None) \<and>
   [ResourceCPU \<mapsto> 2, ResourceMemory \<mapsto> 64::nat] ResourceMemory \<noteq> None"
  by (simp add: getResourceListFromSpec_def example_eval)

subsection \<open>C5: the memory entry and the cache size\<close>

text \<open>
  When the last section of the function does not write an entry under the memory
  key, the memory entry is the one the cache rule leaves: the cache quantity if the
  cache size parses to a quantity greater than the memory quantity, and otherwise
  the memory quantity if the memory string parsed.
\<close>

lemma getResourceListFromSpec_memory_entry:
  "(\<forall>q. gpuEntry P r \<noteq> Some (ResourceMemory, q)) \<Longrightarrow>
      fst (getResourceListFromSpec P F r cacheSize) ResourceMemory =
        (if snd (P cacheSize) = None \<and> fst (P cacheSize) > fst (P (Memory r))
         then Some (fst (P cacheSize))
         else if snd (P (Memory r)) = None then Some (fst (P (Memory r))) else None)"
  by (simp add: lookup_unless_gpu fixedEntries_Memory)

text \<open>
  C5. The claim, that the memory entry of the result is the cache quantity whenever
  the cache size parses to a quantity greater than the memory quantity, is what the
  comment in the code asks for (a pipeline should request at least as much memory as
  it needs for caching). The code does not keep it for a GPU whose type is the
  memory key: with 32 of memory, a cache size of 64 and two GPUs of type
  \<open>memory\<close>, the memory entry of the result is 2 and not 64.
\<close>

theorem getResourceListFromSpec_gpu_overwrites_memory:
  "exampleParseQuantity ''64'' = (64, None) \<and> exampleParseQuantity ''32'' = (32, None) \<and>
   getResourceListFromSpec exampleParseQuantity exampleSprintf_f
     \<lparr>Cpu = 2, Memory = ''32'', Gpu = Some \<lparr>Type = ''memory'', Number = 2\<rparr>, Disk = ''''\<rparr>
     ''64'' =
     ([ResourceCPU \<mapsto> 2, ResourceMemory \<mapsto> 2], None) \<and>
   [ResourceCPU \<mapsto> 2, ResourceMemory \<mapsto> 2::nat] ResourceMemory \<noteq> Some 64"
  by (simp add: getResourceListFromSpec_def example_eval)

subsection \<open>Helper lemmas on JobInput\<close>

text \<open>A later provenance entry replaces an earlier one stored under the same key.\<close>

lemma foldl_branchToCommit:
  "foldl (\<lambda>m prov. m(key (Repo_Name (Commit_prov prov)) (Branch_Name prov) \<mapsto> Commit_prov prov))
     m provs k =
   (case lastEntry key provs k of Some commit \<Rightarrow> Some commit | None \<Rightarrow> m k)"
  by (induction provs arbitrary: m) (auto split: option.splits)

lemma branchToCommit_lastEntry: "branchToCommit key provs k = lastEntry key provs k"
  by (simp add: branchToCommit_def foldl_branchToCommit split: option.splits)

lemma pfsLeaves_setCommits:
  "pfsLeaves (setCommits key b2c (Input pfs cron git cross unions)) =
     concat (map pfsLeaves cross) @ concat (map pfsLeaves unions) @
     (case pfs of
        None \<Rightarrow> []
      | Some l \<Rightarrow>
          [case b2c (key (Repo l) (Branch l)) of
             Some commit \<Rightarrow> l\<lparr>Commit := ID commit\<rparr> | None \<Rightarrow> l])"
  by (simp add: setCommits_def split: option.splits)

lemma cronLeaves_setCommits:
  "cronLeaves (setCommits key b2c (Input pfs cron git cross unions)) =
     concat (map cronLeaves cross) @ concat (map cronLeaves unions) @
     (case cron of
        None \<Rightarrow> []
      | Some l \<Rightarrow>
          [case b2c (key (Repo_cron l) ''master'') of
             Some commit \<Rightarrow> l\<lparr>Commit_cron := ID commit\<rparr> | None \<Rightarrow> l])"
  by (simp add: setCommits_def split: option.splits)

lemma gitLeaves_setCommits:
  "gitLeaves (setCommits key b2c (Input pfs cron git cross unions)) =
     concat (map gitLeaves cross) @ concat (map gitLeaves unions) @
     (case git of
        None \<Rightarrow> []
      | Some l \<Rightarrow>
          [case b2c (key (Name_git l) (Branch_git l)) of
             Some commit \<Rightarrow> l\<lparr>Commit_git := ID commit\<rparr> | None \<Rightarrow> l])"
  by (simp add: setCommits_def split: option.splits)

lemma concat_map_cong:
  assumes "\<And>x. x \<in> set xs \<Longrightarrow> f x = map h (g x)"
  shows "concat (map f xs) = map h (concat (map g xs))"
  using assms by (induction xs) simp_all

lemma pfsLeaves_VisitInput:
  "pfsLeaves (VisitInput (setCommits key b2c) t) =
     map (\<lambda>l. case b2c (key (Repo l) (Branch l)) of
                 Some commit \<Rightarrow> l\<lparr>Commit := ID commit\<rparr> | None \<Rightarrow> l) (pfsLeaves t)"
proof (induction t)
  case (Input pfs cron git cross unions)
  show ?case
    by (simp add: pfsLeaves_setCommits o_def concat_map_cong [OF Input.IH(1)]
        concat_map_cong [OF Input.IH(2)] split: option.splits)
qed

lemma cronLeaves_VisitInput:
  "cronLeaves (VisitInput (setCommits key b2c) t) =
     map (\<lambda>l. case b2c (key (Repo_cron l) ''master'') of
                 Some commit \<Rightarrow> l\<lparr>Commit_cron := ID commit\<rparr> | None \<Rightarrow> l) (cronLeaves t)"
proof (induction t)
  case (Input pfs cron git cross unions)
  show ?case
    by (simp add: cronLeaves_setCommits o_def concat_map_cong [OF Input.IH(1)]
        concat_map_cong [OF Input.IH(2)] split: option.splits)
qed

lemma gitLeaves_VisitInput:
  "gitLeaves (VisitInput (setCommits key b2c) t) =
     map (\<lambda>l. case b2c (key (Name_git l) (Branch_git l)) of
                 Some commit \<Rightarrow> l\<lparr>Commit_git := ID commit\<rparr> | None \<Rightarrow> l) (gitLeaves t)"
proof (induction t)
  case (Input pfs cron git cross unions)
  show ?case
    by (simp add: gitLeaves_setCommits o_def concat_map_cong [OF Input.IH(1)]
        concat_map_cong [OF Input.IH(2)] split: option.splits)
qed

text \<open>
  Where no provenance entry of another repository or branch is stored under the
  key of a repository and a branch, the entry under that key is the last entry of
  that repository and branch.
\<close>

lemma lastEntry_lastPair:
  assumes "\<forall>prov \<in> set provs.
             key (Repo_Name (Commit_prov prov)) (Branch_Name prov) = key repo branch \<longrightarrow>
             Repo_Name (Commit_prov prov) = repo \<and> Branch_Name prov = branch"
  shows "lastEntry key provs (key repo branch) = lastPair provs repo branch"
  using assms by (induction provs) (auto split: option.splits)

lemma path_Join_examples:
  "path_Join ''A'' ''master'' = ''A/master''"
  "path_Join ''tick'' ''master'' = ''tick/master''"
  "path_Join ''B'' ''dev'' = ''B/dev''"
  "path_Join ''a/b'' ''c'' = ''a/b/c''"
  "path_Join ''a'' ''b/c'' = ''a/b/c''"
  by code_simp+

subsection \<open>C6: every leaf is resolved against the provenance\<close>

text \<open>
  C6, as amended. The leaves of the tree \<open>JobInput\<close> returns are the leaves of the
  template, in the same order, each with its commit resolved by the joined key: a
  pfs leaf gets the commit identifier of the last provenance entry whose repository
  and branch join to the same key as the repository and branch of the leaf, a cron
  leaf that of the entry whose key is the join of the repository of the leaf and
  \<open>master\<close>, whatever its branch field, and a git leaf that of the entry whose key
  is the join of its name and branch. A leaf whose joined key has no provenance
  entry is the leaf of the template, its commit field as it was. Where every
  provenance entry under the joined key of a repository and a branch is an entry of
  that repository and branch, the entry found is the last entry of that repository
  and branch.
\<close>

theorem JobInput_resolves_leaves:
  "pfsLeaves (JobInput key pipelineInfo outputCommitInfo) =
     map (\<lambda>l. case lastEntry key (Provenance outputCommitInfo) (key (Repo l) (Branch l)) of
                 Some commit \<Rightarrow> l\<lparr>Commit := ID commit\<rparr>
               | None \<Rightarrow> l)
       (pfsLeaves (Input_of pipelineInfo)) \<and>
   cronLeaves (JobInput key pipelineInfo outputCommitInfo) =
     map (\<lambda>l. case lastEntry key (Provenance outputCommitInfo) (key (Repo_cron l) ''master'') of
                 Some commit \<Rightarrow> l\<lparr>Commit_cron := ID commit\<rparr>
               | None \<Rightarrow> l)
       (cronLeaves (Input_of pipelineInfo)) \<and>
   gitLeaves (JobInput key pipelineInfo outputCommitInfo) =
     map (\<lambda>l. case lastEntry key (Provenance outputCommitInfo)
                      (key (Name_git l) (Branch_git l)) of
                 Some commit \<Rightarrow> l\<lparr>Commit_git := ID commit\<rparr>
               | None \<Rightarrow> l)
       (gitLeaves (Input_of pipelineInfo)) \<and>
   ((\<forall>prov \<in> set (Provenance outputCommitInfo).
       key (Repo_Name (Commit_prov prov)) (Branch_Name prov) = key repo branch \<longrightarrow>
       Repo_Name (Commit_prov prov) = repo \<and> Branch_Name prov = branch) \<longrightarrow>
    lastEntry key (Provenance outputCommitInfo) (key repo branch) =
      lastPair (Provenance outputCommitInfo) repo branch)"
  by (simp add: JobInput_def pfsLeaves_VisitInput cronLeaves_VisitInput gitLeaves_VisitInput
      branchToCommit_lastEntry lastEntry_lastPair)

text \<open>
  The theorem with \<open>path.Join\<close> as the key, at a cross of a pfs leaf on \<open>A\<close> and
  \<open>master\<close>, a cron leaf on \<open>tick\<close> and a pfs leaf on \<open>B\<close> and \<open>dev\<close>, with
  provenance entries for \<open>A\<close> and \<open>master\<close> and for \<open>tick\<close> and \<open>master\<close>.
\<close>

theorem JobInput_resolves_leaves_witness:
  "path_Join ''tick'' ''master'' \<noteq> path_Join ''A'' ''master'' \<and>
   lastEntry path_Join
     [\<lparr>Commit_prov = \<lparr>Repo_Name = ''A'', ID = ''c1''\<rparr>, Branch_Name = ''master''\<rparr>,
      \<lparr>Commit_prov = \<lparr>Repo_Name = ''tick'', ID = ''c2''\<rparr>, Branch_Name = ''master''\<rparr>]
     (path_Join ''A'' ''master'') =
   lastPair
     [\<lparr>Commit_prov = \<lparr>Repo_Name = ''A'', ID = ''c1''\<rparr>, Branch_Name = ''master''\<rparr>,
      \<lparr>Commit_prov = \<lparr>Repo_Name = ''tick'', ID = ''c2''\<rparr>, Branch_Name = ''master''\<rparr>]
     ''A'' ''master'' \<and>
   lastPair
     [\<lparr>Commit_prov = \<lparr>Repo_Name = ''A'', ID = ''c1''\<rparr>, Branch_Name = ''master''\<rparr>,
      \<lparr>Commit_prov = \<lparr>Repo_Name = ''tick'', ID = ''c2''\<rparr>, Branch_Name = ''master''\<rparr>]
     ''A'' ''master'' = Some \<lparr>Repo_Name = ''A'', ID = ''c1''\<rparr> \<and>
   pfsLeaves (JobInput path_Join
     \<lparr>Input_of = Input None None None
        [Input (Some \<lparr>Repo = ''A'', Branch = ''master'', Commit = ''''\<rparr>) None None [] [],
         Input None (Some \<lparr>Repo_cron = ''tick'', Branch_cron = ''ignored'',
                           Commit_cron = ''''\<rparr>) None [] [],
         Input (Some \<lparr>Repo = ''B'', Branch = ''dev'', Commit = ''''\<rparr>) None None [] []] []\<rparr>
     \<lparr>Provenance =
        [\<lparr>Commit_prov = \<lparr>Repo_Name = ''A'', ID = ''c1''\<rparr>, Branch_Name = ''master''\<rparr>,
         \<lparr>Commit_prov = \<lparr>Repo_Name = ''tick'', ID = ''c2''\<rparr>, Branch_Name = ''master''\<rparr>]\<rparr>) =
     [\<lparr>Repo = ''A'', Branch = ''master'', Commit = ''c1''\<rparr>,
      \<lparr>Repo = ''B'', Branch = ''dev'', Commit = ''''\<rparr>] \<and>
   cronLeaves (JobInput path_Join
     \<lparr>Input_of = Input None None None
        [Input (Some \<lparr>Repo = ''A'', Branch = ''master'', Commit = ''''\<rparr>) None None [] [],
         Input None (Some \<lparr>Repo_cron = ''tick'', Branch_cron = ''ignored'',
                           Commit_cron = ''''\<rparr>) None [] [],
         Input (Some \<lparr>Repo = ''B'', Branch = ''dev'', Commit = ''''\<rparr>) None None [] []] []\<rparr>
     \<lparr>Provenance =
        [\<lparr>Commit_prov = \<lparr>Repo_Name = ''A'', ID = ''c1''\<rparr>, Branch_Name = ''master''\<rparr>,
         \<lparr>Commit_prov = \<lparr>Repo_Name = ''tick'', ID = ''c2''\<rparr>, Branch_Name = ''master''\<rparr>]\<rparr>) =
     [\<lparr>Repo_cron = ''tick'', Branch_cron = ''ignored'', Commit_cron = ''c2''\<rparr>]"
  using JobInput_resolves_leaves
    [of path_Join
      "\<lparr>Input_of = Input None None None
        [Input (Some \<lparr>Repo = ''A'', Branch = ''master'', Commit = ''''\<rparr>) None None [] [],
         Input None (Some \<lparr>Repo_cron = ''tick'', Branch_cron = ''ignored'',
                           Commit_cron = ''''\<rparr>) None [] [],
         Input (Some \<lparr>Repo = ''B'', Branch = ''dev'', Commit = ''''\<rparr>) None None [] []] []\<rparr>"
      "\<lparr>Provenance =
        [\<lparr>Commit_prov = \<lparr>Repo_Name = ''A'', ID = ''c1''\<rparr>, Branch_Name = ''master''\<rparr>,
         \<lparr>Commit_prov = \<lparr>Repo_Name = ''tick'', ID = ''c2''\<rparr>, Branch_Name = ''master''\<rparr>]\<rparr>"
      "''A''" "''master''"]
  by (simp add: path_Join_examples)

text \<open>
  C6 as it is stated fails: a leaf is resolved from a provenance entry of another
  repository and branch when the two pairs join to the same key. The leaf on
  \<open>a/b\<close> and \<open>c\<close> gets the commit of the entry for \<open>a\<close> and \<open>b/c\<close>, there
  being no entry for \<open>a/b\<close> and \<open>c\<close>.
\<close>

theorem JobInput_joined_key_counterexample:
  "pfsLeaves (JobInput path_Join
     \<lparr>Input_of = Input (Some \<lparr>Repo = ''a/b'', Branch = ''c'', Commit = ''''\<rparr>) None None [] []\<rparr>
     \<lparr>Provenance =
        [\<lparr>Commit_prov = \<lparr>Repo_Name = ''a'', ID = ''c1''\<rparr>, Branch_Name = ''b/c''\<rparr>]\<rparr>) =
     [\<lparr>Repo = ''a/b'', Branch = ''c'', Commit = ''c1''\<rparr>] \<and>
   lastPair [\<lparr>Commit_prov = \<lparr>Repo_Name = ''a'', ID = ''c1''\<rparr>, Branch_Name = ''b/c''\<rparr>]
     ''a/b'' ''c'' = None"
  by (simp add: JobInput_def branchToCommit_def setCommits_def path_Join_examples)

subsection \<open>C3: the number of workers\<close>




end
